theory Spec2Isabelle
  imports Main "HOL-Library.Word"
begin

unbundle bit_operations_syntax

section \<open>Data model\<close>

type_synonym byte = "8 word"
type_synonym bytes = "8 word list"

text \<open>
  The \<^verbatim>\<open>rlpTransaction\<close> interface of the codec: six accessors. A \<^verbatim>\<open>*big.Int\<close> is an
  \<open>int option\<close>, \<open>None\<close> being the nil pointer; a \<^verbatim>\<open>[]byte\<close> is a list of bytes.
\<close>

record rlpTransaction =
  Nonce :: "64 word"
  GasPrice :: "int option"
  GasLimit :: "64 word"
  Recipient :: string
  Amount :: "int option"
  Payload :: bytes

text \<open>
  go-ethereum's legacy \<^verbatim>\<open>types.Transaction\<close>: the six payload fields and the signature
  values \<open>V\<close>, \<open>R\<close>, \<open>S\<close>. \<open>txTo = None\<close> is a contract creation.
\<close>

record ethTx =
  txNonce :: "64 word"
  txGasPrice :: int
  txGas :: "64 word"
  txTo :: "bytes option"
  txValue :: int
  txData :: bytes
  txV :: int
  txR :: int
  txS :: int

text \<open>Every error return and panic of the modelled functions.\<close>

datatype error =
    ErrNilAction
  | ErrInvalidRecipient string string
  | ErrInvalidSigLength nat
  | ErrAddress string
  | ErrHexDecode
  | ErrRlpDecode
  | ErrNilPointer
  | ErrInvalidPrivateKey
  | ErrExternal string
  | ErrIntrinsicGasOverflow
  | ErrWrap string error
  | ErrFilterNotFound
  | Panic

text \<open>The items that \<^verbatim>\<open>rlpHash\<close> is given by the EIP-155 signer.\<close>

datatype rlpValue = RlpUint nat | RlpBig int | RlpBytes bytes | RlpAddr "bytes option"

text \<open>
  The external collaborators of the codec, taken as parameters: the address parser of
  iotex-address (\<^verbatim>\<open>address.FromString\<close> followed by \<^verbatim>\<open>Bytes()\<close>, \<open>Inl\<close> its error message),
  go-ethereum's RLP codec and Keccak hashing, and the secp256k1 operations of go-pkgs.
  Keys are represented by their serialisations.
\<close>

record extern =
  FromString :: "string \<Rightarrow> string + bytes"
  rlpEncode :: "ethTx \<Rightarrow> string + bytes"
  rlpDecode :: "bytes \<Rightarrow> ethTx option"
  keccak256 :: "bytes \<Rightarrow> bytes"
  rlpHash :: "rlpValue list \<Rightarrow> bytes"
  EcdsaPrivateKey :: "bytes \<Rightarrow> bytes option"
  PublicKey :: "bytes \<Rightarrow> bytes"
  Sign :: "bytes \<Rightarrow> bytes \<Rightarrow> string + bytes"
  RecoverPubkey :: "bytes \<Rightarrow> bytes \<Rightarrow> string + bytes"

section \<open>Big integers and byte strings\<close>

text \<open>\<^verbatim>\<open>big.Int.SetBytes\<close>: a big-endian byte string read as a number.\<close>

definition SetBytes :: "bytes \<Rightarrow> nat" where
  "SetBytes bs = foldl (\<lambda>a b. a * 256 + unat b) 0 bs"

text \<open>\<^verbatim>\<open>big.Int.Bytes\<close>: the big-endian bytes of the absolute value, without leading zeros.\<close>

fun natBytes :: "nat \<Rightarrow> bytes" where
  "natBytes n = (if n = 0 then [] else natBytes (n div 256) @ [of_nat (n mod 256)])"

declare natBytes.simps [simp del]

definition Bytes :: "int \<Rightarrow> bytes" where
  "Bytes x = natBytes (nat \<bar>x\<bar>)"

text \<open>Go's \<^verbatim>\<open>copy(dst[off:off+len(src)], src)\<close> on a slice that is long enough.\<close>

definition copyAt :: "bytes \<Rightarrow> nat \<Rightarrow> bytes \<Rightarrow> bytes" where
  "copyAt dst off src = take off dst @ src @ drop (off + length src) dst"

text \<open>What \<^verbatim>\<open>types.NewTransaction\<close> stores for a possibly nil \<^verbatim>\<open>*big.Int\<close>.\<close>

definition bigOrZero :: "int option \<Rightarrow> int" where
  "bigOrZero x = (case x of None \<Rightarrow> 0 | Some v \<Rightarrow> v)"

section \<open>go-ethereum constructors used by the codec\<close>

text \<open>\<^verbatim>\<open>common.BytesToAddress\<close>: the last 20 bytes, left-padded with zeros.\<close>

definition BytesToAddress :: "bytes \<Rightarrow> bytes" where
  "BytesToAddress b =
     (let b' = (if length b > 20 then drop (length b - 20) b else b)
      in replicate (20 - length b') 0 @ b')"

definition NewTransaction ::
  "64 word \<Rightarrow> bytes \<Rightarrow> int option \<Rightarrow> 64 word \<Rightarrow> int option \<Rightarrow> bytes \<Rightarrow> ethTx" where
  "NewTransaction nonce to amount gasLimit gasPrice data =
     \<lparr>txNonce = nonce, txGasPrice = bigOrZero gasPrice, txGas = gasLimit, txTo = Some to,
      txValue = bigOrZero amount, txData = data, txV = 0, txR = 0, txS = 0\<rparr>"

definition NewContractCreation ::
  "64 word \<Rightarrow> int option \<Rightarrow> 64 word \<Rightarrow> int option \<Rightarrow> bytes \<Rightarrow> ethTx" where
  "NewContractCreation nonce amount gasLimit gasPrice data =
     \<lparr>txNonce = nonce, txGasPrice = bigOrZero gasPrice, txGas = gasLimit, txTo = None,
      txValue = bigOrZero amount, txData = data, txV = 0, txR = 0, txS = 0\<rparr>"

text \<open>
  \<^verbatim>\<open>EIP155Signer.SignatureValues\<close> through \<^verbatim>\<open>decodeSignature\<close>: a signature that is not 65
  bytes long panics; \<open>R\<close> and \<open>S\<close> are the two 32-byte halves; \<open>V\<close> is the byte
  \<^verbatim>\<open>sig[64] + 35\<close> (byte arithmetic) plus twice the chain id, or \<^verbatim>\<open>sig[64] + 27\<close> for chain id 0.
\<close>

definition SignatureValues :: "32 word \<Rightarrow> bytes \<Rightarrow> error + (int \<times> int \<times> int)" where
  "SignatureValues chainID sig =
     (if length sig \<noteq> 65 then Inl Panic
      else let r = int (SetBytes (take 32 sig));
               s = int (SetBytes (take 32 (drop 32 sig)));
               v = (if chainID \<noteq> 0 then uint ((sig ! 64) + 35) + 2 * uint chainID
                    else uint ((sig ! 64) + 27))
           in Inr (r, s, v))"

definition WithSignature :: "32 word \<Rightarrow> ethTx \<Rightarrow> bytes \<Rightarrow> error + ethTx" where
  "WithSignature chainID tx sig =
     (case SignatureValues chainID sig of
        Inl e \<Rightarrow> Inl e
      | Inr (r, s, v) \<Rightarrow> Inr (tx\<lparr>txV := v, txR := r, txS := s\<rparr>))"

text \<open>\<^verbatim>\<open>EIP155Signer.Hash\<close>: the hash of the six payload fields, the chain id and two zeros.\<close>

definition EIP155Hash :: "extern \<Rightarrow> 32 word \<Rightarrow> ethTx \<Rightarrow> bytes" where
  "EIP155Hash L chainID tx =
     rlpHash L [RlpUint (unat (txNonce tx)), RlpBig (txGasPrice tx), RlpUint (unat (txGas tx)),
                RlpAddr (txTo tx), RlpBig (txValue tx), RlpBytes (txData tx),
                RlpBig (uint chainID), RlpUint 0, RlpUint 0]"

section \<open>The transaction codec\<close>

text \<open>
  Modelled from the spec: the constant \<^verbatim>\<open>EmptyAddress\<close> is declared elsewhere in the
  repository; the spec's data model says that the empty recipient string denotes contract
  creation.
\<close>

definition EmptyAddress :: string where
  "EmptyAddress = []"

text \<open>\<^verbatim>\<open>RlpToEthTx\<close>. The interface value \<^verbatim>\<open>act\<close> may be nil: \<open>None\<close>.\<close>

definition RlpToEthTx :: "extern \<Rightarrow> rlpTransaction option \<Rightarrow> error + ethTx" where
  "RlpToEthTx L act =
     (case act of
        None \<Rightarrow> Inl ErrNilAction
      | Some a \<Rightarrow>
          (let to = Recipient a in
           if to \<noteq> EmptyAddress then
             (case FromString L to of
                Inl err \<Rightarrow> Inl (ErrInvalidRecipient err to)
              | Inr addr \<Rightarrow>
                  Inr (NewTransaction (Nonce a) (BytesToAddress addr) (Amount a) (GasLimit a)
                         (GasPrice a) (Payload a)))
           else Inr (NewContractCreation (Nonce a) (Amount a) (GasLimit a) (GasPrice a)
                       (Payload a))))"

text \<open>
  Lines 68 to 72 of \<^verbatim>\<open>reconstructSignedRlpTxFromSig\<close>: the copy \<^verbatim>\<open>sc\<close> of a 65-byte
  signature, with 27 subtracted from its last byte when that byte is at least 27.
\<close>

definition normalizedSig :: "bytes \<Rightarrow> bytes" where
  "normalizedSig sig = (if sig ! 64 \<ge> 27 then sig[64 := sig ! 64 - 27] else sig)"

definition reconstructSignedRlpTxFromSig ::
  "extern \<Rightarrow> rlpTransaction option \<Rightarrow> 32 word \<Rightarrow> bytes \<Rightarrow> error + ethTx" where
  "reconstructSignedRlpTxFromSig L tx chainID sig =
     (if length sig \<noteq> 65 then Inl (ErrInvalidSigLength (length sig))
      else let sc = normalizedSig sig in
           (case RlpToEthTx L tx of
              Inl err \<Rightarrow> Inl err
            | Inr rawTx \<Rightarrow>
                (case WithSignature chainID rawTx sc of
                   Inl err \<Rightarrow> Inl err
                 | Inr signedTx \<Rightarrow> Inr signedTx)))"

text \<open>
  \<^verbatim>\<open>rlpSignedHash\<close>. The result of \<^verbatim>\<open>rlp.Encode\<close> is not looked at: when the encoder
  fails it has written nothing, and the hash is that of the empty input.
\<close>

definition rlpSignedHash ::
  "extern \<Rightarrow> rlpTransaction option \<Rightarrow> 32 word \<Rightarrow> bytes \<Rightarrow> error + bytes" where
  "rlpSignedHash L tx chainID sig =
     (case reconstructSignedRlpTxFromSig L tx chainID sig of
        Inl err \<Rightarrow> Inl err
      | Inr signedTx \<Rightarrow>
          Inr (keccak256 L (case rlpEncode L signedTx of Inl _ \<Rightarrow> [] | Inr bs \<Rightarrow> bs)))"

definition rlpRawHash :: "extern \<Rightarrow> rlpTransaction option \<Rightarrow> 32 word \<Rightarrow> error + bytes" where
  "rlpRawHash L tx chainID =
     (case RlpToEthTx L tx of
        Inl err \<Rightarrow> Inl err
      | Inr rawTx \<Rightarrow> Inr (EIP155Hash L chainID rawTx))"

text \<open>
  \<^verbatim>\<open>getSignatureFromRLPTX\<close>. The recovery id is computed in \<^verbatim>\<open>uint32\<close> and only its low
  byte is appended. The slice expression \<^verbatim>\<open>sig[32-rSize:32]\<close> panics when \<open>R\<close> has more than
  32 bytes, \<^verbatim>\<open>sig[64-sSize:]\<close> when \<open>S\<close> has more than 64.
\<close>

definition getSignatureFromRLPTX :: "ethTx option \<Rightarrow> 32 word \<Rightarrow> error + bytes" where
  "getSignatureFromRLPTX tx chainID =
     (case tx of
        None \<Rightarrow> Inl ErrNilPointer
      | Some t \<Rightarrow>
          (let recID = (word_of_int (txV t) :: 32 word) - 2 * chainID - 8;
               sig0 = replicate 64 0;
               rSize = length (Bytes (txR t))
           in if rSize > 32 then Inl Panic
              else let sig1 = copyAt sig0 (32 - rSize) (Bytes (txR t));
                       sSize = length (Bytes (txS t))
                   in if sSize > 64 then Inl Panic
                      else let sig2 = copyAt sig1 (64 - sSize) (Bytes (txS t))
                           in Inr (sig2 @ [ucast recID])))"

subsection \<open>Hexadecimal strings\<close>

text \<open>
  \<^verbatim>\<open>util.Remove0xPrefix\<close> of go-pkgs: a leading \<^verbatim>\<open>0x\<close> or \<^verbatim>\<open>0X\<close> is stripped from a string
  of at least two characters.
\<close>

fun Remove0xPrefix :: "string \<Rightarrow> string" where
  "Remove0xPrefix (a # b # rest) =
     (if a = CHR ''0'' \<and> (b = CHR ''x'' \<or> b = CHR ''X'') then rest else a # b # rest)"
| "Remove0xPrefix s = s"

text \<open>Go's \<^verbatim>\<open>encoding/hex\<close>: lower-case digits out, both cases in, an odd length is an error.\<close>

definition hextable :: string where
  "hextable = ''0123456789abcdef''"

definition fromHexChar :: "char \<Rightarrow> byte option" where
  "fromHexChar c =
     (let n = (of_char c :: nat) in
      if 48 \<le> n \<and> n \<le> 57 then Some (of_nat (n - 48))
      else if 97 \<le> n \<and> n \<le> 102 then Some (of_nat (n - 97 + 10))
      else if 65 \<le> n \<and> n \<le> 70 then Some (of_nat (n - 65 + 10))
      else None)"

definition EncodeToString :: "bytes \<Rightarrow> string" where
  "EncodeToString bs =
     concat (map (\<lambda>v. [hextable ! unat (drop_bit 4 v), hextable ! unat (v AND 15)]) bs)"

fun DecodeString :: "string \<Rightarrow> error + bytes" where
  "DecodeString [] = Inr []"
| "DecodeString [p] = Inl ErrHexDecode"
| "DecodeString (p # q # rest) =
     (case fromHexChar p of
        None \<Rightarrow> Inl ErrHexDecode
      | Some a \<Rightarrow>
          (case fromHexChar q of
             None \<Rightarrow> Inl ErrHexDecode
           | Some b \<Rightarrow>
               (case DecodeString rest of
                  Inl err \<Rightarrow> Inl err
                | Inr bs \<Rightarrow> Inr ((push_bit 4 a OR b) # bs))))"

subsection \<open>Raw transactions\<close>

text \<open>\<^verbatim>\<open>DecodeRawTx\<close>: the transaction, the 65-byte signature and the recovered public key.\<close>

definition DecodeRawTx :: "extern \<Rightarrow> string \<Rightarrow> 32 word \<Rightarrow> error + (ethTx \<times> bytes \<times> bytes)" where
  "DecodeRawTx L rawData chainID =
     (case DecodeString (Remove0xPrefix rawData) of
        Inl err \<Rightarrow> Inl err
      | Inr dataInString \<Rightarrow>
          (case rlpDecode L dataInString of
             None \<Rightarrow> Inl ErrRlpDecode
           | Some tx \<Rightarrow>
               (case getSignatureFromRLPTX (Some tx) chainID of
                  Inl err \<Rightarrow> Inl err
                | Inr sig \<Rightarrow>
                    (let rawHash = EIP155Hash L chainID tx in
                     case RecoverPubkey L rawHash sig of
                       Inl err \<Rightarrow> Inl (ErrExternal err)
                     | Inr pubkey \<Rightarrow> Inr (tx, sig, pubkey)))))"

text \<open>\<^verbatim>\<open>types.SignTx\<close>: sign the EIP-155 hash and attach the signature.\<close>

definition SignTx :: "extern \<Rightarrow> ethTx \<Rightarrow> 32 word \<Rightarrow> bytes \<Rightarrow> error + ethTx" where
  "SignTx L tx chainID prv =
     (case Sign L (EIP155Hash L chainID tx) prv of
        Inl err \<Rightarrow> Inl (ErrExternal err)
      | Inr sig \<Rightarrow> WithSignature chainID tx sig)"

text \<open>
  \<^verbatim>\<open>EncodeRawTx\<close>. The conversion \<^verbatim>\<open>actionToRLP\<close> from an action to its \<^verbatim>\<open>rlpTransaction\<close>
  view is defined elsewhere in the repository and is a parameter.
\<close>

definition EncodeRawTx ::
  "extern \<Rightarrow> ('a \<Rightarrow> error + rlpTransaction option) \<Rightarrow> 'a \<Rightarrow> bytes \<Rightarrow> 32 word \<Rightarrow> error + string" where
  "EncodeRawTx L actionToRLP act pvk chainID =
     (case actionToRLP act of
        Inl err \<Rightarrow> Inl err
      | Inr rlpAct \<Rightarrow>
          (case RlpToEthTx L rlpAct of
             Inl err \<Rightarrow> Inl err
           | Inr rawTx \<Rightarrow>
               (case EcdsaPrivateKey L pvk of
                  None \<Rightarrow> Inl ErrInvalidPrivateKey
                | Some ecdsaPvk \<Rightarrow>
                    (case SignTx L rawTx chainID ecdsaPvk of
                       Inl err \<Rightarrow> Inl err
                     | Inr signedTx \<Rightarrow>
                         (case rlpEncode L signedTx of
                            Inl err \<Rightarrow> Inl (ErrExternal err)
                          | Inr encodedTx \<Rightarrow> Inr (EncodeToString encodedTx))))))"

section \<open>Transfer\<close>

record AbstractAction =
  version :: "32 word"
  nonce :: "64 word"
  gasLimit :: "64 word"
  gasPrice :: "int option"

record Transfer = AbstractAction +
  amount :: "int option"
  recipient :: string
  payload :: bytes

definition TransferPayloadGas :: "64 word" where
  "TransferPayloadGas = 100"

definition TransferBaseIntrinsicGas :: "64 word" where
  "TransferBaseIntrinsicGas = 10000"

text \<open>
  Modelled from the spec: \<^verbatim>\<open>CalculateIntrinsicGas\<close> is defined elsewhere in the repository.
  It is the base gas plus the per-byte gas times the payload size, and an error when that sum
  does not fit the 64-bit result.
\<close>

definition CalculateIntrinsicGas :: "64 word \<Rightarrow> 64 word \<Rightarrow> 64 word \<Rightarrow> error + 64 word" where
  "CalculateIntrinsicGas baseIntrinsicGas payloadGas payloadSize =
     (if unat baseIntrinsicGas + unat payloadGas * unat payloadSize < 2 ^ 64
      then Inr (baseIntrinsicGas + payloadGas * payloadSize)
      else Inl ErrIntrinsicGasOverflow)"

definition Transfer_IntrinsicGas :: "Transfer \<Rightarrow> error + 64 word" where
  "Transfer_IntrinsicGas tsf =
     (let payloadSize = (of_nat (length (payload tsf)) :: 64 word)
      in CalculateIntrinsicGas TransferBaseIntrinsicGas TransferPayloadGas payloadSize)"

text \<open>
  \<^verbatim>\<open>Cost\<close>. \<^verbatim>\<open>big.Int\<close> arithmetic on a nil operand is a nil-pointer panic.
\<close>

definition Transfer_Cost :: "Transfer \<Rightarrow> error + int" where
  "Transfer_Cost tsf =
     (case Transfer_IntrinsicGas tsf of
        Inl err \<Rightarrow> Inl (ErrWrap ''failed to get intrinsic gas for the transfer'' err)
      | Inr intrinsicGas \<Rightarrow>
          (case gasPrice tsf of
             None \<Rightarrow> Inl Panic
           | Some p \<Rightarrow>
               (let transferFee = p * uint intrinsicGas in
                case amount tsf of
                  None \<Rightarrow> Inl Panic
                | Some a \<Rightarrow> Inr (a + transferFee))))"

definition Transfer_ToEthTx :: "extern \<Rightarrow> Transfer \<Rightarrow> error + ethTx" where
  "Transfer_ToEthTx L tsf =
     (case FromString L (recipient tsf) of
        Inl err \<Rightarrow> Inl (ErrAddress err)
      | Inr addr \<Rightarrow>
          Inr (NewTransaction (nonce tsf) (BytesToAddress addr) (amount tsf) (gasLimit tsf)
                 (gasPrice tsf) (payload tsf)))"

text \<open>A Transfer seen through the \<^verbatim>\<open>rlpTransaction\<close> interface: its six accessors.\<close>

definition Transfer_rlp :: "Transfer \<Rightarrow> rlpTransaction" where
  "Transfer_rlp tsf =
     \<lparr>Nonce = nonce tsf, GasPrice = gasPrice tsf, GasLimit = gasLimit tsf,
      Recipient = recipient tsf, Amount = amount tsf, Payload = payload tsf\<rparr>"

section \<open>The RPC handler\<close>

text \<open>
  The handler methods and the filter manager are defined elsewhere in the repository; their
  integration tests fix the results used below. The ledger, the log indexer and the
  execution simulator are external collaborators and are parameters.
\<close>

datatype 'v txEntry = TxHash bytes | TxObject 'v

record ('a, 'v) blockchain =
  TipHeight :: nat
  blockActions :: "nat \<Rightarrow> 'a list option"
  actionHash :: "'a \<Rightarrow> bytes"
  ethView :: "'a \<Rightarrow> 'v option"

record 'v getBlockResult =
  blkHeight :: nat
  transactions :: "'v txEntry list"

text \<open>
  Modelled from the spec: \<^verbatim>\<open>getBlockByNumber\<close> (get block by number) returns the block with
  either transaction hashes or full transaction objects, and "no result" for an unknown
  height. A full transaction object is the Ethereum-shaped view of an action. The test
  \<^verbatim>\<open>TestGetBlockByNumberIntegrity\<close> expects one element with the flag set and two without it
  for block 1, whose transaction count \<^verbatim>\<open>TestGetBlockTransactionCountByNumberIntegrity\<close>
  expects to be two: the full-object list holds the actions that have such a view.
\<close>

definition getBlockByNumber ::
  "('a, 'v) blockchain \<Rightarrow> nat \<Rightarrow> bool \<Rightarrow> error + 'v getBlockResult option" where
  "getBlockByNumber svr height isDetailed =
     (if height > TipHeight svr then Inr None
      else case blockActions svr height of
             None \<Rightarrow> Inr None
           | Some acts \<Rightarrow>
               Inr (Some \<lparr>blkHeight = height,
                          transactions =
                            (if isDetailed then map TxObject (List.map_filter (ethView svr) acts)
                             else map (\<lambda>a. TxHash (actionHash svr a)) acts)\<rparr>))"

text \<open>
  Modelled from the spec: \<^verbatim>\<open>getBlockTransactionCountByNumber\<close>, the number of actions of
  the block at a height.
\<close>

definition getBlockTransactionCountByNumber ::
  "('a, 'v) blockchain \<Rightarrow> nat \<Rightarrow> error + nat option" where
  "getBlockTransactionCountByNumber svr height =
     (if height > TipHeight svr then Inr None
      else case blockActions svr height of
             None \<Rightarrow> Inr None
           | Some acts \<Rightarrow> Inr (Some (length acts)))"

text \<open>
  The table and the assertions of \<^verbatim>\<open>TestGetBlockByNumberIntegrity\<close>; block numbers are
  hexadecimal quantities, so \<^verbatim>\<open>"10"\<close> is height 16.
\<close>

definition TestGetBlockByNumberIntegrity :: "('a, 'v) blockchain \<Rightarrow> bool" where
  "TestGetBlockByNumberIntegrity svr =
     list_all
       (\<lambda>(height, isDetailed, expected).
          case getBlockByNumber svr height isDetailed of
            Inl err \<Rightarrow> False
          | Inr ret \<Rightarrow>
              (if expected = 0 then ret = None
               else case ret of
                      None \<Rightarrow> False
                    | Some blk \<Rightarrow> length (transactions blk) = expected))
       [(1, True, 1 :: nat), (1, False, 2), (16, False, 0)]"

definition TestGetBlockTransactionCountByNumberIntegrity :: "('a, 'v) blockchain \<Rightarrow> bool" where
  "TestGetBlockTransactionCountByNumberIntegrity svr =
     (getBlockTransactionCountByNumber svr 1 = Inr (Some 2))"

subsection \<open>Gas estimation\<close>

record callObject =
  callFrom :: string
  callTo :: string
  callGas :: "64 word"
  callGasPrice :: int
  callValue :: int
  callData :: bytes

record estimator =
  isContract :: "string \<Rightarrow> bool"
  EstimateExecutionGasConsumption :: "callObject \<Rightarrow> error + 64 word"

text \<open>
  Modelled from the spec: \<^verbatim>\<open>estimateGas\<close> (estimate gas) returns a gas quantity sufficient
  to execute, "at minimum the 21000 base-transfer cost, scaled up for contract execution
  cost". A call to an account without code is a transfer, whose requirement is the intrinsic
  gas of the Transfer; a contract creation or a call to a contract takes the requirement from
  the ledger's simulation. The first two rows of \<^verbatim>\<open>TestEstimateGasIntegrity\<close> (21000 for a
  4-byte payload, 36000 for a 260-byte payload) fix the transfer branch.
\<close>

definition estimateGas :: "estimator \<Rightarrow> callObject \<Rightarrow> error + 64 word" where
  "estimateGas svr c =
     (let estimated =
            (if callTo c = [] \<or> isContract svr (callTo c)
             then EstimateExecutionGasConsumption svr c
             else Transfer_IntrinsicGas
                    \<lparr>version = 1, nonce = 0, gasLimit = callGas c, gasPrice = Some 0,
                     amount = Some (callValue c), recipient = callTo c, payload = callData c\<rparr>)
      in case estimated of
           Inl err \<Rightarrow> Inl err
         | Inr estimatedGas \<Rightarrow> Inr (if estimatedGas < 21000 then 21000 else estimatedGas))"

section \<open>The filter manager\<close>

record filterObject =
  FromBlock :: "nat option"
  ToBlock :: "nat option"
  Address :: "string list"
  Topics :: "bytes list list"

datatype filterKind = LogFilter filterObject | BlockFilter

record filterState =
  kind :: filterKind
  cursor :: nat

record 'l ledger =
  Height :: nat
  logsInRange :: "filterObject \<Rightarrow> nat \<Rightarrow> nat \<Rightarrow> 'l list"
  blockHashAt :: "nat \<Rightarrow> bytes"

record manager =
  filters :: "bytes \<Rightarrow> filterState option"
  created :: nat

datatype 'l pollResult = Logs "'l list" | BlockHashes "bytes list"

text \<open>
  Modelled from the spec: \<^verbatim>\<open>newFilter\<close> (CreateLogFilter) derives the filter id from the
  criteria and the creation counter (the content hash \<open>idOf\<close>, which also stands for the
  creation time), starts the cursor at the from-block, or at the current height when that is
  unset, and stores the filter.
\<close>

definition newFilter ::
  "(filterKind \<Rightarrow> nat \<Rightarrow> bytes) \<Rightarrow> 'l ledger \<Rightarrow> manager \<Rightarrow> filterObject \<Rightarrow> bytes \<times> manager" where
  "newFilter idOf svr m crit =
     (let fid = idOf (LogFilter crit) (created m);
          start = (case FromBlock crit of None \<Rightarrow> Height svr | Some h \<Rightarrow> h)
      in (fid, m\<lparr>filters := (filters m)(fid \<mapsto> \<lparr>kind = LogFilter crit, cursor = start\<rparr>),
                 created := created m + 1\<rparr>))"

text \<open>Modelled from the spec: \<^verbatim>\<open>newBlockFilter\<close> (CreateBlockFilter), cursor at the current height.\<close>

definition newBlockFilter ::
  "(filterKind \<Rightarrow> nat \<Rightarrow> bytes) \<Rightarrow> 'l ledger \<Rightarrow> manager \<Rightarrow> bytes \<times> manager" where
  "newBlockFilter idOf svr m =
     (let fid = idOf BlockFilter (created m)
      in (fid, m\<lparr>filters := (filters m)(fid \<mapsto> \<lparr>kind = BlockFilter, cursor = Height svr\<rparr>),
                 created := created m + 1\<rparr>))"

text \<open>
  Modelled from the spec: \<^verbatim>\<open>getFilterChanges\<close> (Poll). An unknown id is the filter-not-found
  error; a cursor beyond the current height gives an empty result; otherwise the poll reports
  what lies between the cursor and the current height and moves the cursor past it. The
  bounds are those of \<^verbatim>\<open>TestGetFilterChangesIntegrity\<close>: a block filter polled right after
  its creation reports one hash, the block at the current height, and nothing on the next
  poll, so the cursor is the first height not yet reported.
\<close>

definition getFilterChanges ::
  "'l ledger \<Rightarrow> manager \<Rightarrow> bytes \<Rightarrow> error + ('l pollResult \<times> manager)" where
  "getFilterChanges svr m fid =
     (case filters m fid of
        None \<Rightarrow> Inl ErrFilterNotFound
      | Some f \<Rightarrow>
          (let m' = m\<lparr>filters := (filters m)(fid \<mapsto> f\<lparr>cursor := Height svr + 1\<rparr>)\<rparr> in
           case kind f of
             LogFilter crit \<Rightarrow>
               (if cursor f > Height svr then Inr (Logs [], m)
                else Inr (Logs (logsInRange svr crit (cursor f) (Height svr)), m'))
           | BlockFilter \<Rightarrow>
               (if cursor f > Height svr then Inr (BlockHashes [], m)
                else Inr (BlockHashes (map (blockHashAt svr) [cursor f ..< Height svr + 1]), m'))))"

text \<open>The steps and the assertions of \<^verbatim>\<open>TestGetFilterChangesIntegrity\<close>.\<close>

definition TestGetFilterChangesIntegrity ::
  "(filterKind \<Rightarrow> nat \<Rightarrow> bytes) \<Rightarrow> 'l ledger \<Rightarrow> manager \<Rightarrow> bool" where
  "TestGetFilterChangesIntegrity idOf svr m0 =
     (let filterReq = \<lparr>FromBlock = Some 1, ToBlock = None, Address = [], Topics = []\<rparr>;
          (filterID1, m1) = newFilter idOf svr m0 filterReq
      in case getFilterChanges svr m1 filterID1 of
           Inr (Logs ret, m2) \<Rightarrow>
             length ret = 4 \<and>
             (case getFilterChanges svr m2 filterID1 of
                Inr (Logs ret', m3) \<Rightarrow>
                  length ret' = 0 \<and>
                  (let (filterID2, m4) = newBlockFilter idOf svr m3
                   in case getFilterChanges svr m4 filterID2 of
                        Inr (BlockHashes ret2, m5) \<Rightarrow>
                          length ret2 = 1 \<and>
                          (case getFilterChanges svr m5 filterID2 of
                             Inr (BlockHashes ret3, m6) \<Rightarrow> length ret3 = 0
                           | _ \<Rightarrow> False)
                      | _ \<Rightarrow> False)
              | _ \<Rightarrow> False)
         | _ \<Rightarrow> False)"

section \<open>Sample values\<close>

text \<open>
  The raw transaction of \<^verbatim>\<open>TestSendRawTransactionIntegrity\<close> (chain id 1): nonce 1, gas
  price 0, gas limit 100000, a 20-byte recipient, value 0, no payload, \<open>V = 37\<close>. Its bytes
  before and after the one-byte \<open>V\<close>, its \<open>R\<close> and \<open>S\<close>, and the recipient as a native address
  string.
\<close>

definition sampleAddress :: bytes where
  "sampleAddress =
     [0x12, 0x74, 0x5f, 0xec, 0x82, 0xb5, 0x85, 0xf2, 0x39, 0xc0, 0x10, 0x90, 0x88, 0x2e, 0xb4,
     0x07, 0x02, 0xc3, 0x2b, 0x04]"

definition sampleRecipient :: string where
  "sampleRecipient = ''io1zf69lmyzkkzlywwqzzggst45qupvx2cyye62fp''"

definition sampleR :: bytes where
  "sampleR =
     [0xb0, 0xe1, 0xaa, 0xb5, 0xb6, 0x4d, 0x74, 0x4a, 0xe0, 0x1f, 0xc9, 0xf1, 0xc3, 0xe9, 0x91,
     0x98, 0x44, 0xa7, 0x99, 0xe9, 0x0c, 0x23, 0x12, 0x9d, 0x61, 0x1f, 0x7e, 0xfe, 0x6a, 0xec,
     0x8a, 0x29]"

definition sampleS :: bytes where
  "sampleS =
     [0x19, 0x5e, 0x28, 0xd2, 0x2d, 0x9b, 0x28, 0x0e, 0x00, 0xd5, 0x01, 0xff, 0x63, 0x52, 0x5b,
     0xb7, 0x6f, 0x5c, 0x87, 0xb8, 0x64, 0x6c, 0x89, 0xd5, 0xd9, 0xc5, 0x48, 0x5e, 0xdc, 0xb1,
     0xb4, 0x98]"

definition samplePrefix :: bytes where
  "samplePrefix =
     [0xf8, 0x60, 0x01, 0x80, 0x83, 0x01, 0x86, 0xa0, 0x94, 0x12, 0x74, 0x5f, 0xec, 0x82, 0xb5,
     0x85, 0xf2, 0x39, 0xc0, 0x10, 0x90, 0x88, 0x2e, 0xb4, 0x07, 0x02, 0xc3, 0x2b, 0x04, 0x80,
     0x80]"

definition sampleRaw :: "byte \<Rightarrow> bytes" where
  "sampleRaw v = samplePrefix @ [v] @ [0xa0] @ sampleR @ [0xa0] @ sampleS"

text \<open>
  The hexadecimal string of the test, and the same transaction with \<open>V = 27\<close>, which is how
  go-ethereum's signer encodes the signature under chain id 0.
\<close>

definition sampleRawData :: string where
  "sampleRawData =
     ''f8600180830186a09412745fec82b585f239c01090882eb40702c32b04808025'' @
     ''a0b0e1aab5b64d744ae01fc9f1c3e9919844a799e90c23129d611f7efe6aec8a'' @
     ''29a0195e28d22d9b280e00d501ff63525bb76f5c87b8646c89d5d9c5485edcb1'' @
     ''b498''"

definition sampleRawDataZero :: string where
  "sampleRawDataZero =
     ''f8600180830186a09412745fec82b585f239c01090882eb40702c32b0480801b'' @
     ''a0b0e1aab5b64d744ae01fc9f1c3e9919844a799e90c23129d611f7efe6aec8a'' @
     ''29a0195e28d22d9b280e00d501ff63525bb76f5c87b8646c89d5d9c5485edcb1'' @
     ''b498''"

definition sampleAction :: rlpTransaction where
  "sampleAction =
     \<lparr>Nonce = 1, GasPrice = Some 0, GasLimit = 100000, Recipient = sampleRecipient,
      Amount = Some 0, Payload = []\<rparr>"

definition sampleSignedTx :: "int \<Rightarrow> ethTx" where
  "sampleSignedTx v =
     \<lparr>txNonce = 1, txGasPrice = 0, txGas = 100000, txTo = Some sampleAddress, txValue = 0,
      txData = [], txV = v,
      txR = 80005780136058021899190973316127695127452834899926140781467870021998466599465,
      txS = 11474186574916380352602655124978681429272076301469503900309191898320719688856\<rparr>"

definition sampleKey :: bytes where
  "sampleKey = replicate 32 0x11"

definition samplePubkey :: bytes where
  "samplePubkey = 0x04 # replicate 64 0x22"

text \<open>
  A stand-in for the external libraries, for evaluating the codec at the sample transaction.
  The address parser knows the sample recipient. The RLP codec knows the sample transaction
  signed under chain id 1 (\<open>V = 37\<close>) and under chain id 0 (\<open>V = 27\<close>). The signer knows the
  sample key, for which it returns the sample \<open>R\<close> and \<open>S\<close> with recovery id 0. Public-key
  recovery accepts that signature with the recovery id 0 or its legacy form 27, as the spec's
  data model has it, and nothing else. Hashes and keys are placeholders.
\<close>

definition sampleExtern :: extern where
  "sampleExtern =
     \<lparr>FromString = (\<lambda>s. if s = sampleRecipient then Inr sampleAddress
                         else Inl ''invalid address''),
      rlpEncode = (\<lambda>tx. if tx = sampleSignedTx 37 then Inr (sampleRaw 0x25)
                        else if tx = sampleSignedTx 27 then Inr (sampleRaw 0x1b)
                        else Inl ''unsupported transaction''),
      rlpDecode = (\<lambda>bs. if bs = sampleRaw 0x25 then Some (sampleSignedTx 37)
                        else if bs = sampleRaw 0x1b then Some (sampleSignedTx 27)
                        else None),
      keccak256 = (\<lambda>bs. replicate 32 0x33),
      rlpHash = (\<lambda>items. replicate 32 0x44),
      EcdsaPrivateKey = (\<lambda>k. if k = sampleKey then Some k else None),
      PublicKey = (\<lambda>k. samplePubkey),
      Sign = (\<lambda>h k. if k = sampleKey then Inr (sampleR @ sampleS @ [0])
                     else Inl ''unknown key''),
      RecoverPubkey = (\<lambda>h sig. if sig = sampleR @ sampleS @ [0] \<or> sig = sampleR @ sampleS @ [27]
                               then Inr samplePubkey
                               else Inl ''invalid signature'')\<rparr>"

text \<open>
  A chain of height 4 whose block 1 holds two actions, one with an Ethereum-shaped view and
  one without, as the block tests expect.
\<close>

definition sampleChain :: "(rlpTransaction option, rlpTransaction) blockchain" where
  "sampleChain =
     \<lparr>TipHeight = 4,
      blockActions = (\<lambda>h. if h = 1 then Some [Some sampleAction, None]
                          else if h \<le> 4 then Some [] else None),
      actionHash = (\<lambda>a. case a of None \<Rightarrow> replicate 32 0x55 | Some t \<Rightarrow> replicate 32 0x66),
      ethView = (\<lambda>a. a)\<rparr>"

text \<open>
  A ledger of height 4 with one log in each of the blocks 1 to 4 (a log is its block height
  here), and a filter-id function.
\<close>

definition sampleLedger :: "nat ledger" where
  "sampleLedger =
     \<lparr>Height = 4,
      logsInRange = (\<lambda>crit from to. filter (\<lambda>h. from \<le> h \<and> h \<le> to) [1, 2, 3, 4]),
      blockHashAt = (\<lambda>h. replicate 32 (of_nat h))\<rparr>"

definition sampleIdOf :: "filterKind \<Rightarrow> nat \<Rightarrow> bytes" where
  "sampleIdOf k n = replicate 32 (of_nat n)"

definition sampleManager :: manager where
  "sampleManager = \<lparr>filters = (\<lambda>fid. None), created = 0\<rparr>"

text \<open>
  A simulator that knows one contract and reports 12000 gas for every execution, and two
  calls: a plain transfer without payload and a call of the contract.
\<close>

definition sampleEstimator :: estimator where
  "sampleEstimator =
     \<lparr>isContract = (\<lambda>a. a = ''io1contract''),
      EstimateExecutionGasConsumption = (\<lambda>c. Inr 12000)\<rparr>"

definition sampleCall :: callObject where
  "sampleCall =
     \<lparr>callFrom = ''io1sender'', callTo = sampleRecipient, callGas = 0, callGasPrice = 0,
      callValue = 0, callData = []\<rparr>"

section \<open>Contracts of the external libraries\<close>

text \<open>The RLP codec decodes what it encoded.\<close>

definition rlp_roundtrip :: "extern \<Rightarrow> bool" where
  "rlp_roundtrip L = (\<forall>tx bs. rlpEncode L tx = Inr bs \<longrightarrow> rlpDecode L bs = Some tx)"

text \<open>
  Recoverable ECDSA: a signature is 65 bytes, \<open>R\<close>, \<open>S\<close> and a recovery id of 0 or 1, and
  public-key recovery from the signed hash and the signature, its recovery id in the legacy
  form (plus 27), gives the signer's public key.
\<close>

definition ecdsa_recoverable :: "extern \<Rightarrow> bool" where
  "ecdsa_recoverable L =
     (\<forall>h key ek sig.
        EcdsaPrivateKey L key = Some ek \<and> Sign L h ek = Inr sig \<longrightarrow>
        length sig = 65 \<and> sig ! 64 \<le> 1 \<and>
        RecoverPubkey L h (take 64 sig @ [sig ! 64 + 27]) = Inr (PublicKey L key))"

section \<open>Facts about the sample values\<close>

lemma sample_lengths: "length sampleR = 32" "length sampleS = 32"
  by (simp_all add: sampleR_def sampleS_def)

lemma sample_sig_length: "length (sampleR @ sampleS @ [v]) = 65"
  by (simp add: sample_lengths)

lemma sample_sig_parts:
  "take 32 (sampleR @ sampleS @ [v]) = sampleR"
  "take 32 (drop 32 (sampleR @ sampleS @ [v])) = sampleS"
  "(sampleR @ sampleS @ [v]) ! 64 = v"
  by (simp_all add: sample_lengths nth_append)

lemma SetBytes_sampleR:
  "SetBytes sampleR = 80005780136058021899190973316127695127452834899926140781467870021998466599465"
  by (simp add: SetBytes_def sampleR_def)

lemma SetBytes_sampleS:
  "SetBytes sampleS = 11474186574916380352602655124978681429272076301469503900309191898320719688856"
  by (simp add: SetBytes_def sampleS_def)

lemma sample_RlpToEthTx:
  "RlpToEthTx sampleExtern (Some sampleAction) = Inr (sampleSignedTx 0\<lparr>txR := 0, txS := 0\<rparr>)"
  by (simp add: RlpToEthTx_def sampleExtern_def sampleAction_def EmptyAddress_def
      sampleRecipient_def NewTransaction_def BytesToAddress_def sampleAddress_def
      sampleSignedTx_def bigOrZero_def Let_def)

lemma sample_WithSignature:
  "c \<noteq> 0 \<Longrightarrow>
   WithSignature c (sampleSignedTx 0\<lparr>txR := 0, txS := 0\<rparr>) (sampleR @ sampleS @ [v]) =
     Inr (sampleSignedTx (uint (v + 35) + 2 * uint c))"
  by (simp add: WithSignature_def SignatureValues_def sample_lengths
      SetBytes_sampleR SetBytes_sampleS Let_def sampleSignedTx_def nth_append)

lemma sample_normalizedSig:
  "normalizedSig (sampleR @ sampleS @ [v]) = sampleR @ sampleS @ [if v \<ge> 27 then v - 27 else v]"
proof -
  have "(sampleR @ sampleS @ [v])[64 := w] = sampleR @ sampleS @ [w]" for w
    by (simp add: sample_lengths list_update_append)
  then show ?thesis
    by (simp add: normalizedSig_def sample_lengths nth_append)
qed

section \<open>Hexadecimal round trip\<close>

lemma hexdigit_inverse: "n < 16 \<Longrightarrow> fromHexChar (hextable ! n) = Some (of_nat n)"
proof -
  have "\<forall>n \<in> set [0..<16]. fromHexChar (hextable ! n) = Some (of_nat n)"
    by (simp add: upt_rec hextable_def fromHexChar_def)
  then show "n < 16 \<Longrightarrow> fromHexChar (hextable ! n) = Some (of_nat n)" by simp
qed

lemma hexdigit_not_x:
  "n < 16 \<Longrightarrow> hextable ! n \<noteq> CHR ''x'' \<and> hextable ! n \<noteq> CHR ''X''"
proof -
  have "\<forall>n \<in> set [0..<16]. hextable ! n \<noteq> CHR ''x'' \<and> hextable ! n \<noteq> CHR ''X''"
    by (simp add: upt_rec hextable_def)
  then show "n < 16 \<Longrightarrow> hextable ! n \<noteq> CHR ''x'' \<and> hextable ! n \<noteq> CHR ''X''" by simp
qed

lemma and15: "(v :: byte) AND 15 = take_bit 4 v"
  by (simp add: take_bit_eq_mask mask_eq_exp_minus_1)

lemma nibble_bounds: "unat (drop_bit 4 (v :: byte)) < 16" "unat (v AND 15) < 16"
proof -
  have "unat v < 256" using unsigned_less [of v] by simp
  then have "unat v div 16 < 16" by simp
  moreover have "unat (drop_bit 4 v) = unat v div 16"
    unfolding unat_drop_bit_eq by (simp add: drop_bit_eq_div)
  ultimately show "unat (drop_bit 4 v) < 16" by simp
  have "unat (take_bit 4 v) < 2 ^ 4"
    unfolding unsigned_take_bit_eq by (rule take_bit_nat_less_exp)
  then show "unat (v AND 15) < 16" by (simp add: and15)
qed

lemma nibbles_join: "push_bit 4 (drop_bit 4 v) OR (v AND 15) = (v :: byte)"
proof (rule bit_word_eqI)
  fix n assume "n < LENGTH(8)"
  then show "bit (push_bit 4 (drop_bit 4 v) OR (v AND 15)) n \<longleftrightarrow> bit v n"
    by (auto simp: and15 bit_simps)
qed

lemma DecodeString_EncodeToString: "DecodeString (EncodeToString bs) = Inr bs"
proof (induction bs)
  case Nil
  then show ?case by (simp add: EncodeToString_def)
next
  case (Cons v bs)
  have "EncodeToString (v # bs) =
          hextable ! unat (drop_bit 4 v) # hextable ! unat (v AND 15) # EncodeToString bs"
    by (simp add: EncodeToString_def)
  then show ?case
    using Cons.IH by (simp add: hexdigit_inverse nibble_bounds nibbles_join)
qed

lemma Remove0xPrefix_EncodeToString: "Remove0xPrefix (EncodeToString bs) = EncodeToString bs"
proof (cases bs)
  case Nil
  then show ?thesis by (simp add: EncodeToString_def)
next
  case (Cons v vs)
  have "EncodeToString (v # vs) =
          hextable ! unat (drop_bit 4 v) # hextable ! unat (v AND 15) # EncodeToString vs"
    by (simp add: EncodeToString_def)
  then show ?thesis
    using Cons hexdigit_not_x [OF nibble_bounds(2), of v] by simp
qed

section \<open>Signature bytes of a signed transaction\<close>

lemma SetBytes_snoc: "SetBytes (bs @ [b]) = SetBytes bs * 256 + unat b"
  by (simp add: SetBytes_def)

lemma SetBytes_zero_iff: "SetBytes bs = 0 \<longleftrightarrow> (\<forall>b \<in> set bs. b = 0)"
  by (induction bs rule: rev_induct) (auto simp: SetBytes_snoc SetBytes_def unat_eq_0)

lemma natBytes_step:
  assumes "n \<noteq> 0 \<or> unat b \<noteq> 0"
  shows "natBytes (n * 256 + unat b) = natBytes n @ [b]"
proof -
  have lt: "unat b < 256" using unsigned_less [of b] by simp
  have nz: "n * 256 + unat b \<noteq> 0" using assms by auto
  have d: "(n * 256 + unat b) div 256 = n" using lt by simp
  have m: "(n * 256 + unat b) mod 256 = unat b" using lt by simp
  have "natBytes (n * 256 + unat b) =
          natBytes ((n * 256 + unat b) div 256) @ [of_nat ((n * 256 + unat b) mod 256)]"
    by (subst natBytes.simps) (simp only: nz if_False)
  then show ?thesis unfolding d m by simp
qed

lemma natBytes_SetBytes: "natBytes (SetBytes bs) = dropWhile (\<lambda>b. b = 0) bs"
proof (induction bs rule: rev_induct)
  case Nil
  then show ?case by (simp add: SetBytes_def natBytes.simps)
next
  case (snoc x xs)
  show ?case
  proof (cases "SetBytes xs = 0 \<and> x = 0")
    case True
    then have "\<forall>b \<in> set (xs @ [x]). b = 0" by (simp add: SetBytes_zero_iff)
    then have "dropWhile (\<lambda>b. b = 0) (xs @ [x]) = []" by (simp only: dropWhile_eq_Nil_conv)
    moreover have "SetBytes (xs @ [x]) = 0" using True by (simp add: SetBytes_snoc)
    ultimately show ?thesis by (simp add: natBytes.simps)
  next
    case False
    then have "SetBytes xs \<noteq> 0 \<or> unat x \<noteq> 0" by (auto simp: unat_eq_0)
    then have step: "natBytes (SetBytes (xs @ [x])) = dropWhile (\<lambda>b. b = 0) xs @ [x]"
      by (simp add: SetBytes_snoc natBytes_step snoc.IH)
    show ?thesis
    proof (cases "SetBytes xs = 0")
      case True
      then have z: "\<forall>b \<in> set xs. b = 0" by (simp add: SetBytes_zero_iff)
      then have "dropWhile (\<lambda>b. b = 0) xs = []" by (simp only: dropWhile_eq_Nil_conv)
      moreover have "x \<noteq> 0" using True False by simp
      ultimately show ?thesis using step z by (simp add: dropWhile_append)
    next
      case False
      then obtain b where "b \<in> set xs" "b \<noteq> 0" by (auto simp: SetBytes_zero_iff)
      then show ?thesis using step dropWhile_append1 [of b xs "\<lambda>b. b = 0" "[x]"] by simp
    qed
  qed
qed

lemma Bytes_SetBytes: "Bytes (int (SetBytes bs)) = dropWhile (\<lambda>b. b = 0) bs"
  by (simp add: Bytes_def natBytes_SetBytes)

lemma pad_dropWhile:
  "replicate (length bs - length (dropWhile (\<lambda>b. b = 0) bs)) (0 :: byte) @ dropWhile (\<lambda>b. b = 0) bs = bs"
proof -
  have len: "length bs - length (dropWhile (\<lambda>b. b = 0) bs) = length (takeWhile (\<lambda>b. b = 0) bs)"
    by (metis add_diff_cancel_right' length_append takeWhile_dropWhile_id)
  have "takeWhile (\<lambda>b. b = 0) bs = replicate (length (takeWhile (\<lambda>b. b = 0) bs)) 0"
    by (metis (mono_tags, lifting) replicate_length_same set_takeWhileD)
  then show ?thesis
    by (metis len takeWhile_dropWhile_id)
qed

lemma copy_two_halves:
  assumes "length rb \<le> 32" and "length sb \<le> 32"
  shows "copyAt (copyAt (replicate 64 0) (32 - length rb) rb) (64 - length sb) sb =
           (replicate (32 - length rb) 0 @ rb) @ (replicate (32 - length sb) 0 @ sb)"
proof -
  have r: "copyAt (replicate 64 0) (32 - length rb) rb =
             (replicate (32 - length rb) 0 @ rb) @ replicate 32 0"
    using assms(1) by (simp add: copyAt_def min_def)
  have "64 - length sb = 32 + (32 - length sb)" using assms(2) by simp
  then show ?thesis
    using assms by (simp add: r copyAt_def)
qed

lemma getSignatureFromRLPTX_signed:
  assumes "length r = 32" and "length s = 32"
    and "txR t = int (SetBytes r)" and "txS t = int (SetBytes s)"
  shows "getSignatureFromRLPTX (Some t) chainID =
           Inr (r @ s @ [ucast ((word_of_int (txV t) :: 32 word) - 2 * chainID - 8)])"
proof -
  let ?rb = "dropWhile (\<lambda>b. b = 0) r" and ?sb = "dropWhile (\<lambda>b. b = 0) s"
  have lr: "length ?rb \<le> 32" and ls: "length ?sb \<le> 32"
    using assms(1,2) length_dropWhile_le [of "\<lambda>b. b = 0" r] length_dropWhile_le [of "\<lambda>b. b = 0" s]
    by simp_all
  have "copyAt (copyAt (replicate 64 0) (32 - length ?rb) ?rb) (64 - length ?sb) ?sb = r @ s"
    using copy_two_halves [OF lr ls] pad_dropWhile [of r] pad_dropWhile [of s] assms(1,2)
    by simp
  then show ?thesis
    using lr ls by (simp add: getSignatureFromRLPTX_def assms(3,4) Bytes_SetBytes Let_def)
qed

lemma length_copyAt: "off + length src \<le> length dst \<Longrightarrow> length (copyAt dst off src) = length dst"
  by (simp add: copyAt_def)

lemma getSignatureFromRLPTX_result:
  "getSignatureFromRLPTX (Some t) chainID =
     (if length (Bytes (txR t)) > 32 \<or> length (Bytes (txS t)) > 64 then Inl Panic
      else Inr (copyAt (copyAt (replicate 64 0) (32 - length (Bytes (txR t))) (Bytes (txR t)))
                  (64 - length (Bytes (txS t))) (Bytes (txS t)) @
                [ucast ((word_of_int (txV t) :: 32 word) - 2 * chainID - 8)]))"
  by (simp add: getSignatureFromRLPTX_def Let_def)

lemma byte_le_one: "b \<le> (1 :: byte) \<Longrightarrow> b = 0 \<or> b = 1"
  by (auto simp: word_le_nat_alt word_unat_eq_iff)

lemma recID_eip155:
  assumes "b \<le> (1 :: byte)"
  shows "(ucast ((word_of_int (uint (b + 35) + 2 * uint chainID) :: 32 word) - 2 * chainID - 8) :: byte)
           = b + 27"
proof -
  have "(word_of_int (uint (b + 35) + 2 * uint chainID) :: 32 word) =
          word_of_int (uint (b + 35)) + 2 * chainID"
    by simp
  then have "(word_of_int (uint (b + 35) + 2 * uint chainID) :: 32 word) - 2 * chainID - 8 =
          word_of_int (uint (b + 35)) - 8"
    by simp
  then show ?thesis
    using byte_le_one [OF assms] by auto
qed

lemma EIP155Hash_signature_free:
  "EIP155Hash L chainID (tx\<lparr>txV := v, txR := r, txS := s\<rparr>) = EIP155Hash L chainID tx"
  by (simp add: EIP155Hash_def)

section \<open>Encoding and decoding raw transactions\<close>

lemma RlpToEthTx_fields:
  assumes "RlpToEthTx L (Some a) = Inr tx"
  shows "txNonce tx = Nonce a \<and> txGas tx = GasLimit a \<and> txGasPrice tx = bigOrZero (GasPrice a) \<and>
         txValue tx = bigOrZero (Amount a) \<and> txData tx = Payload a"
  using assms
  by (auto simp: RlpToEthTx_def Let_def NewTransaction_def NewContractCreation_def
      split: if_splits sum.splits)

lemma WithSignature_Inr:
  assumes "length sig = 65" and "chainID \<noteq> 0"
  shows "WithSignature chainID tx sig =
           Inr (tx\<lparr>txV := uint (sig ! 64 + 35) + 2 * uint chainID,
                   txR := int (SetBytes (take 32 sig)),
                   txS := int (SetBytes (take 32 (drop 32 sig)))\<rparr>)"
  using assms by (simp add: WithSignature_def SignatureValues_def Let_def)

lemma sig_split:
  assumes "length sig = 65"
  shows "take 32 sig @ take 32 (drop 32 sig) @ [v] = take 64 sig @ [v]"
proof -
  have "take 64 sig = take 32 sig @ take 32 (drop 32 sig)"
    using take_add [of 32 32 sig] by simp
  then show ?thesis by simp
qed

text \<open>
  C1, as amended: for every nonzero chain id, with an RLP codec that decodes what it encoded
  and recoverable ECDSA, whenever \<^verbatim>\<open>EncodeRawTx\<close> succeeds on an action, a private key and
  the chain id, \<^verbatim>\<open>DecodeRawTx\<close> of its result under the same chain id recovers the public
  key of that private key, and the nonce, gas limit, gas price, value and payload of the
  decoded transaction are those of the action (0 for a nil gas price or amount).
\<close>

theorem EncodeRawTx_DecodeRawTx_roundtrip:
  assumes c: "chainID \<noteq> 0"
    and rlp: "rlp_roundtrip L"
    and ecdsa: "ecdsa_recoverable L"
    and view: "actionToRLP A = Inr (Some a)"
    and enc: "EncodeRawTx L actionToRLP A key chainID = Inr rawData"
  shows "\<exists>tx sig. DecodeRawTx L rawData chainID = Inr (tx, sig, PublicKey L key) \<and>
           txNonce tx = Nonce a \<and> txGas tx = GasLimit a \<and>
           txGasPrice tx = bigOrZero (GasPrice a) \<and> txValue tx = bigOrZero (Amount a) \<and>
           txData tx = Payload a"
proof -
  from enc view obtain rawTx where raw: "RlpToEthTx L (Some a) = Inr rawTx"
    by (auto simp: EncodeRawTx_def split: sum.splits)
  from enc view raw obtain ek where ek: "EcdsaPrivateKey L key = Some ek"
    by (auto simp: EncodeRawTx_def split: option.splits)
  from enc view raw ek obtain signedTx
    where signed: "SignTx L rawTx chainID ek = Inr signedTx"
    by (auto simp: EncodeRawTx_def split: sum.splits)
  from enc view raw ek signed obtain encodedTx
    where encoded: "rlpEncode L signedTx = Inr encodedTx"
      and rawData: "rawData = EncodeToString encodedTx"
    by (auto simp: EncodeRawTx_def split: sum.splits)
  let ?h = "EIP155Hash L chainID rawTx"
  from signed obtain sig where sig: "Sign L ?h ek = Inr sig"
    by (auto simp: SignTx_def split: sum.splits)
  from ecdsa ek sig have len: "length sig = 65" and v: "sig ! 64 \<le> 1"
    and rec: "RecoverPubkey L ?h (take 64 sig @ [sig ! 64 + 27]) = Inr (PublicKey L key)"
    unfolding ecdsa_recoverable_def by blast+
  let ?r = "take 32 sig" and ?s = "take 32 (drop 32 sig)"
  have stx: "signedTx = rawTx\<lparr>txV := uint (sig ! 64 + 35) + 2 * uint chainID,
                               txR := int (SetBytes ?r), txS := int (SetBytes ?s)\<rparr>"
    using signed sig WithSignature_Inr [OF len c, of rawTx] by (simp add: SignTx_def)
  have hex: "DecodeString (Remove0xPrefix rawData) = Inr encodedTx"
    by (simp add: rawData Remove0xPrefix_EncodeToString DecodeString_EncodeToString)
  have dec: "rlpDecode L encodedTx = Some signedTx"
    using rlp encoded unfolding rlp_roundtrip_def by blast
  have "getSignatureFromRLPTX (Some signedTx) chainID =
          Inr (?r @ ?s @ [ucast ((word_of_int (txV signedTx) :: 32 word) - 2 * chainID - 8)])"
    using len by (intro getSignatureFromRLPTX_signed) (simp_all add: stx)
  then have gs: "getSignatureFromRLPTX (Some signedTx) chainID = Inr (take 64 sig @ [sig ! 64 + 27])"
    using recID_eip155 [OF v, of chainID] sig_split [OF len] by (simp add: stx)
  have h: "EIP155Hash L chainID signedTx = ?h"
    by (simp add: stx EIP155Hash_signature_free)
  have "DecodeRawTx L rawData chainID =
          Inr (signedTx, take 64 sig @ [sig ! 64 + 27], PublicKey L key)"
    by (simp add: DecodeRawTx_def hex dec gs h rec)
  moreover have "txNonce signedTx = Nonce a \<and> txGas signedTx = GasLimit a \<and>
           txGasPrice signedTx = bigOrZero (GasPrice a) \<and> txValue signedTx = bigOrZero (Amount a) \<and>
           txData signedTx = Payload a"
    using RlpToEthTx_fields [OF raw] by (simp add: stx)
  ultimately show ?thesis by blast
qed

lemma sampleRaw_inject: "sampleRaw a = sampleRaw b \<longleftrightarrow> a = b"
  by (simp add: sampleRaw_def)

lemma sampleSignedTx_inject: "sampleSignedTx a = sampleSignedTx b \<longleftrightarrow> a = b"
  by (simp add: sampleSignedTx_def)

lemma sample_contracts: "rlp_roundtrip sampleExtern" "ecdsa_recoverable sampleExtern"
  by (auto simp: rlp_roundtrip_def ecdsa_recoverable_def sampleExtern_def sampleRaw_inject
      sampleSignedTx_inject sample_lengths nth_append split: if_splits)

lemma sample_WithSignature_zero:
  "WithSignature 0 (sampleSignedTx 0\<lparr>txR := 0, txS := 0\<rparr>) (sampleR @ sampleS @ [v]) =
     Inr (sampleSignedTx (uint (v + 27)))"
  by (simp add: WithSignature_def SignatureValues_def sample_lengths
      SetBytes_sampleR SetBytes_sampleS Let_def sampleSignedTx_def nth_append)

lemma sample_EncodeRawTx:
  "EncodeRawTx sampleExtern (\<lambda>a. Inr (Some a)) sampleAction sampleKey 1 =
     Inr (EncodeToString (sampleRaw 0x25))"
  "EncodeRawTx sampleExtern (\<lambda>a. Inr (Some a)) sampleAction sampleKey 0 =
     Inr (EncodeToString (sampleRaw 0x1b))"
proof -
  have k: "EcdsaPrivateKey sampleExtern sampleKey = Some sampleKey"
    and e: "rlpEncode sampleExtern (sampleSignedTx 37) = Inr (sampleRaw 0x25)"
           "rlpEncode sampleExtern (sampleSignedTx 27) = Inr (sampleRaw 0x1b)"
    by (simp_all add: sampleExtern_def sampleSignedTx_inject)
  have s: "Sign sampleExtern h sampleKey = Inr (sampleR @ sampleS @ [0])" for h
    by (simp add: sampleExtern_def)
  show "EncodeRawTx sampleExtern (\<lambda>a. Inr (Some a)) sampleAction sampleKey 1 =
          Inr (EncodeToString (sampleRaw 0x25))"
    using sample_WithSignature [of 1 0]
    by (simp add: EncodeRawTx_def sample_RlpToEthTx k SignTx_def s e)
  show "EncodeRawTx sampleExtern (\<lambda>a. Inr (Some a)) sampleAction sampleKey 0 =
          Inr (EncodeToString (sampleRaw 0x1b))"
    using sample_WithSignature_zero [of 0]
    by (simp add: EncodeRawTx_def sample_RlpToEthTx k SignTx_def s e)
qed

lemma sampleRaw_hex:
  "EncodeToString (sampleRaw 0x25) =
     sampleRawData"
  "EncodeToString (sampleRaw 0x1b) =
     sampleRawDataZero"
  by (simp_all add: EncodeToString_def sampleRaw_def samplePrefix_def sampleR_def sampleS_def
      hextable_def drop_bit_eq_div sampleRawData_def sampleRawDataZero_def)

lemma sample_Bytes:
  "Bytes (txR (sampleSignedTx v)) = sampleR" "Bytes (txS (sampleSignedTx v)) = sampleS"
proof -
  have "dropWhile (\<lambda>b. b = 0) sampleR = sampleR" "dropWhile (\<lambda>b. b = 0) sampleS = sampleS"
    by (simp_all add: sampleR_def sampleS_def)
  then show "Bytes (txR (sampleSignedTx v)) = sampleR" "Bytes (txS (sampleSignedTx v)) = sampleS"
    using Bytes_SetBytes [of sampleR] Bytes_SetBytes [of sampleS]
    by (simp_all add: sampleSignedTx_def SetBytes_sampleR SetBytes_sampleS)
qed

lemma sample_getSignatureFromRLPTX:
  "getSignatureFromRLPTX (Some (sampleSignedTx v)) chainID =
     Inr (sampleR @ sampleS @ [ucast ((word_of_int v :: 32 word) - 2 * chainID - 8)])"
proof -
  have "txR (sampleSignedTx v) = int (SetBytes sampleR)" "txS (sampleSignedTx v) = int (SetBytes sampleS)"
    by (simp_all add: sampleSignedTx_def SetBytes_sampleR SetBytes_sampleS)
  from getSignatureFromRLPTX_signed [OF sample_lengths this, of chainID]
  show ?thesis by (simp add: sampleSignedTx_def)
qed

lemma sample_DecodeRawTx:
  "DecodeRawTx sampleExtern (EncodeToString (sampleRaw 0x25)) 1 =
     Inr (sampleSignedTx 37, sampleR @ sampleS @ [27], samplePubkey)"
  "DecodeRawTx sampleExtern (EncodeToString (sampleRaw 0x1b)) 0 =
     Inl (ErrExternal ''invalid signature'')"
proof -
  have d: "rlpDecode sampleExtern (sampleRaw 0x25) = Some (sampleSignedTx 37)"
          "rlpDecode sampleExtern (sampleRaw 0x1b) = Some (sampleSignedTx 27)"
    by (simp_all add: sampleExtern_def sampleRaw_inject)
  have r: "RecoverPubkey sampleExtern h (sampleR @ sampleS @ [27]) = Inr samplePubkey"
          "RecoverPubkey sampleExtern h (sampleR @ sampleS @ [19]) = Inl ''invalid signature''" for h
    by (simp_all add: sampleExtern_def)
  show "DecodeRawTx sampleExtern (EncodeToString (sampleRaw 0x25)) 1 =
     Inr (sampleSignedTx 37, sampleR @ sampleS @ [27], samplePubkey)"
    by (simp add: DecodeRawTx_def Remove0xPrefix_EncodeToString DecodeString_EncodeToString d
        sample_getSignatureFromRLPTX r)
  show "DecodeRawTx sampleExtern (EncodeToString (sampleRaw 0x1b)) 0 =
     Inl (ErrExternal ''invalid signature'')"
    by (simp add: DecodeRawTx_def Remove0xPrefix_EncodeToString DecodeString_EncodeToString d
        sample_getSignatureFromRLPTX r)
qed

theorem EncodeRawTx_DecodeRawTx_roundtrip_witness:
  "(1 :: 32 word) \<noteq> 0 \<and> rlp_roundtrip sampleExtern \<and> ecdsa_recoverable sampleExtern \<and>
   EncodeRawTx sampleExtern (\<lambda>a. Inr (Some a)) sampleAction sampleKey 1 =
     Inr sampleRawData \<and>
   (\<exists>tx sig. DecodeRawTx sampleExtern
       sampleRawData 1 =
         Inr (tx, sig, PublicKey sampleExtern sampleKey) \<and>
       txNonce tx = 1 \<and> txGas tx = 100000 \<and> txGasPrice tx = 0 \<and> txValue tx = 0 \<and> txData tx = [])"
  using EncodeRawTx_DecodeRawTx_roundtrip [where chainID = 1 and L = sampleExtern
      and actionToRLP = "\<lambda>a. Inr (Some a)" and A = sampleAction and a = sampleAction
      and key = sampleKey
      and rawData = sampleRawData]
    sample_contracts sample_EncodeRawTx(1) sampleRaw_hex(1)
  by (simp add: sampleAction_def bigOrZero_def)

text \<open>
  The claim as stated fails at chain id 0, where the signer stores \<open>V = 27\<close> plus the recovery
  id: the byte that \<^verbatim>\<open>DecodeRawTx\<close> derives is then 19, which is neither a recovery id nor
  its legacy form, and the public key is not recovered.
\<close>

theorem EncodeRawTx_DecodeRawTx_chain_zero_counterexample:
  "rlp_roundtrip sampleExtern \<and> ecdsa_recoverable sampleExtern \<and>
   EncodeRawTx sampleExtern (\<lambda>a. Inr (Some a)) sampleAction sampleKey 0 =
     Inr sampleRawDataZero \<and>
   getSignatureFromRLPTX (Some (sampleSignedTx 27)) 0 = Inr (sampleR @ sampleS @ [19]) \<and>
   DecodeRawTx sampleExtern
     sampleRawDataZero 0 =
     Inl (ErrExternal ''invalid signature'')"
  using sample_contracts sample_EncodeRawTx(2) sample_DecodeRawTx(2) sampleRaw_hex(2)
    sample_getSignatureFromRLPTX [of 27 0]
  by simp

lemma length_two_copies:
  assumes "length rb \<le> 32" and "length sb \<le> 64"
  shows "length (copyAt (copyAt (replicate 64 0) (32 - length rb) rb) (64 - length sb) sb) = 64"
  using assms by (simp add: copyAt_def)

text \<open>
  C2, as amended: \<^verbatim>\<open>DecodeRawTx\<close> derives the recovery id as the low byte of
  \<open>v - 2 \<sqdot> chainID - 8\<close>, computed in 32 bits, and does not check it. For every decoded
  transaction whose \<open>R\<close> has at most 32 and whose \<open>S\<close> has at most 64 bytes, the signature is
  extracted without error, is 65 bytes long and ends in that byte, whatever its value, and
  \<^verbatim>\<open>DecodeRawTx\<close> returns what \<^verbatim>\<open>RecoverPubkey\<close> makes of it: its error, or the
  transaction, the signature and the public key.
\<close>

theorem getSignatureFromRLPTX_unchecked:
  "length (Bytes (txR t)) \<le> 32 \<and> length (Bytes (txS t)) \<le> 64 \<longrightarrow>
     (\<exists>sig. getSignatureFromRLPTX (Some t) chainID = Inr sig \<and> length sig = 65 \<and>
            sig ! 64 = ucast ((word_of_int (txV t) :: 32 word) - 2 * chainID - 8) \<and>
            (\<forall>rawData bs.
               DecodeString (Remove0xPrefix rawData) = Inr bs \<and> rlpDecode L bs = Some t \<longrightarrow>
               DecodeRawTx L rawData chainID =
                 (case RecoverPubkey L (EIP155Hash L chainID t) sig of
                    Inl err \<Rightarrow> Inl (ErrExternal err)
                  | Inr pubkey \<Rightarrow> Inr (t, sig, pubkey))))"
proof
  assume a: "length (Bytes (txR t)) \<le> 32 \<and> length (Bytes (txS t)) \<le> 64"
  let ?body = "copyAt (copyAt (replicate 64 0) (32 - length (Bytes (txR t))) (Bytes (txR t)))
                 (64 - length (Bytes (txS t))) (Bytes (txS t))"
  let ?sig = "?body @ [ucast ((word_of_int (txV t) :: 32 word) - 2 * chainID - 8) :: byte]"
  have len: "length ?body = 64"
    using a by (intro length_two_copies) simp_all
  have gs: "getSignatureFromRLPTX (Some t) chainID = Inr ?sig"
    using a by (simp add: getSignatureFromRLPTX_result)
  have last: "?sig ! 64 = ucast ((word_of_int (txV t) :: 32 word) - 2 * chainID - 8)"
    using len by (simp add: nth_append)
  have "\<forall>rawData bs.
          DecodeString (Remove0xPrefix rawData) = Inr bs \<and> rlpDecode L bs = Some t \<longrightarrow>
          DecodeRawTx L rawData chainID =
            (case RecoverPubkey L (EIP155Hash L chainID t) ?sig of
               Inl err \<Rightarrow> Inl (ErrExternal err)
             | Inr pubkey \<Rightarrow> Inr (t, ?sig, pubkey))"
    by (simp add: DecodeRawTx_def gs Let_def)
  with gs last len show "\<exists>sig. getSignatureFromRLPTX (Some t) chainID = Inr sig \<and> length sig = 65 \<and>
            sig ! 64 = ucast ((word_of_int (txV t) :: 32 word) - 2 * chainID - 8) \<and>
            (\<forall>rawData bs.
               DecodeString (Remove0xPrefix rawData) = Inr bs \<and> rlpDecode L bs = Some t \<longrightarrow>
               DecodeRawTx L rawData chainID =
                 (case RecoverPubkey L (EIP155Hash L chainID t) sig of
                    Inl err \<Rightarrow> Inl (ErrExternal err)
                  | Inr pubkey \<Rightarrow> Inr (t, sig, pubkey)))"
    by (intro exI [of _ ?sig]) simp
qed

text \<open>Longer \<open>R\<close> or \<open>S\<close> values make the slice expressions panic.\<close>

lemma getSignatureFromRLPTX_panics:
  "length (Bytes (txR t)) > 32 \<or> length (Bytes (txS t)) > 64 \<Longrightarrow>
   getSignatureFromRLPTX (Some t) chainID = Inl Panic"
  by (auto simp: getSignatureFromRLPTX_result)

lemma sample_hex_decode:
  "DecodeString (Remove0xPrefix sampleRawData) = Inr (sampleRaw 0x25)"
  unfolding sampleRaw_hex(1) [symmetric]
  by (simp add: Remove0xPrefix_EncodeToString DecodeString_EncodeToString)

theorem getSignatureFromRLPTX_unchecked_witness:
  "length (Bytes (txR (sampleSignedTx 37))) \<le> 32 \<and> length (Bytes (txS (sampleSignedTx 37))) \<le> 64 \<and>
   getSignatureFromRLPTX (Some (sampleSignedTx 37)) 1 = Inr (sampleR @ sampleS @ [27]) \<and>
   DecodeString (Remove0xPrefix sampleRawData) = Inr (sampleRaw 0x25) \<and>
   rlpDecode sampleExtern (sampleRaw 0x25) = Some (sampleSignedTx 37) \<and>
   DecodeRawTx sampleExtern sampleRawData 1 =
     Inr (sampleSignedTx 37, sampleR @ sampleS @ [27], samplePubkey)"
proof -
  have d: "rlpDecode sampleExtern (sampleRaw 0x25) = Some (sampleSignedTx 37)"
    by (simp add: sampleExtern_def)
  have r: "RecoverPubkey sampleExtern h (sampleR @ sampleS @ [27]) = Inr samplePubkey" for h
    by (simp add: sampleExtern_def)
  show ?thesis
    using getSignatureFromRLPTX_unchecked [of "sampleSignedTx 37" 1 sampleExtern]
      sample_getSignatureFromRLPTX [of 37 1] sample_hex_decode d r
    by (auto simp: sample_Bytes sample_lengths)
qed

text \<open>
  The claim as stated fails on the raw transaction of \<^verbatim>\<open>TestSendRawTransactionIntegrity\<close>:
  under chain id 1 its derived recovery id is \<open>37 - 2 - 8 = 27\<close>, not 0 or 1, no error is
  raised, and a public key is returned.
\<close>

theorem DecodeRawTx_recid_counterexample:
  "(ucast ((word_of_int (txV (sampleSignedTx 37)) :: 32 word) - 2 * 1 - 8) :: byte) = 27 \<and>
   getSignatureFromRLPTX (Some (sampleSignedTx 37)) 1 = Inr (sampleR @ sampleS @ [27]) \<and>
   DecodeRawTx sampleExtern sampleRawData 1 =
     Inr (sampleSignedTx 37, sampleR @ sampleS @ [27], samplePubkey)"
  using sample_getSignatureFromRLPTX [of 37 1] sample_DecodeRawTx(1) sampleRaw_hex(1)
  by (simp add: sampleSignedTx_def)

section \<open>Signature length and recovery id\<close>

lemma RlpToEthTx_not_siglen: "RlpToEthTx L tx \<noteq> Inl (ErrInvalidSigLength n)"
  by (auto simp: RlpToEthTx_def Let_def split: option.splits sum.splits)

lemma length_normalizedSig: "length (normalizedSig sig) = length sig"
  by (simp add: normalizedSig_def)

lemma WithSignature_65:
  "length sig = 65 \<Longrightarrow> \<exists>stx. WithSignature c tx sig = Inr stx"
  by (simp add: WithSignature_def SignatureValues_def Let_def)

text \<open>
  C3: \<^verbatim>\<open>rlpSignedHash\<close> fails with the invalid-signature-length error whenever the signature
  is not exactly 65 bytes long, whatever the action (nil included) and the chain id. A
  65-byte signature never gets that error, and the hash is returned whenever the action
  converts to an Ethereum transaction.
\<close>

theorem rlpSignedHash_signature_length:
  "(length sig \<noteq> 65 \<longrightarrow>
      rlpSignedHash L tx chainID sig = Inl (ErrInvalidSigLength (length sig))) \<and>
   (length sig = 65 \<longrightarrow>
      (\<forall>n. rlpSignedHash L tx chainID sig \<noteq> Inl (ErrInvalidSigLength n)) \<and>
      (\<forall>rawTx. RlpToEthTx L tx = Inr rawTx \<longrightarrow>
         (\<exists>h. rlpSignedHash L tx chainID sig = Inr h)))"
proof (intro conjI impI allI)
  assume "length sig \<noteq> 65"
  then show "rlpSignedHash L tx chainID sig = Inl (ErrInvalidSigLength (length sig))"
    by (simp add: rlpSignedHash_def reconstructSignedRlpTxFromSig_def)
next
  fix n assume len: "length sig = 65"
  obtain stx where "\<And>raw. WithSignature chainID raw (normalizedSig sig) = Inr (stx raw)"
    using WithSignature_65 [of "normalizedSig sig" chainID] len
    by (metis length_normalizedSig)
  then show "rlpSignedHash L tx chainID sig \<noteq> Inl (ErrInvalidSigLength n)"
    using len RlpToEthTx_not_siglen [of L tx n]
    by (auto simp: rlpSignedHash_def reconstructSignedRlpTxFromSig_def Let_def split: sum.splits)
next
  fix rawTx assume len: "length sig = 65" and raw: "RlpToEthTx L tx = Inr rawTx"
  obtain stx where "WithSignature chainID rawTx (normalizedSig sig) = Inr stx"
    using WithSignature_65 [of "normalizedSig sig" chainID rawTx] len
    by (auto simp: length_normalizedSig)
  then show "\<exists>h. rlpSignedHash L tx chainID sig = Inr h"
    using len raw
    by (simp add: rlpSignedHash_def reconstructSignedRlpTxFromSig_def Let_def)
qed

theorem rlpSignedHash_signature_length_witness:
  "length [1, 2, 3 :: byte] \<noteq> 65 \<and>
   rlpSignedHash sampleExtern (Some sampleAction) 1 [1, 2, 3] = Inl (ErrInvalidSigLength 3) \<and>
   length (sampleR @ sampleS @ [27]) = 65 \<and>
   (\<exists>h. rlpSignedHash sampleExtern (Some sampleAction) 1 (sampleR @ sampleS @ [27]) = Inr h)"
  using rlpSignedHash_signature_length [of "[1, 2, 3]" sampleExtern "Some sampleAction" 1]
    rlpSignedHash_signature_length [of "sampleR @ sampleS @ [27]" sampleExtern "Some sampleAction" 1]
    sample_RlpToEthTx sample_sig_length [of 27]
  by simp

lemma byte_sub27_small:
  "(27::byte) \<le> b \<Longrightarrow> (b - 27 = 0 \<longleftrightarrow> b = 27) \<and> (b - 27 = 1 \<longleftrightarrow> b = 28)"
  by (auto simp: word_le_nat_alt unat_sub word_unat_eq_iff)

lemma normalizedSig_parts:
  assumes "length sig = 65"
  shows "length (normalizedSig sig) = 65"
    and "take 32 (normalizedSig sig) = take 32 sig"
    and "take 32 (drop 32 (normalizedSig sig)) = take 32 (drop 32 sig)"
    and "normalizedSig sig ! 64 = (if sig ! 64 \<ge> 27 then sig ! 64 - 27 else sig ! 64)"
  using assms by (simp_all add: normalizedSig_def drop_update_swap)

lemma normalized_byte_range:
  "(if (27::byte) \<le> b then b - 27 else b) \<in> {0, 1} \<longleftrightarrow> b \<in> {0, 1, 27, 28}"
proof (cases "(27::byte) \<le> b")
  case True
  have "b \<noteq> 0 \<and> b \<noteq> 1" using True by (auto simp: word_le_nat_alt)
  then show ?thesis using byte_sub27_small [OF True] True by simp
next
  case False
  have "b \<noteq> 27 \<and> b \<noteq> 28" using False by (auto simp: word_le_nat_alt)
  then show ?thesis using False by simp
qed

text \<open>
  C4, as amended: \<^verbatim>\<open>reconstructSignedRlpTxFromSig\<close> on a 65-byte signature subtracts 27
  from the last byte when it is at least 27 and leaves it as it is otherwise, before the
  signed transaction is built: the result is the error of the conversion of the action, or
  the converted transaction with \<open>R\<close> and \<open>S\<close> read from the first 64 bytes and \<open>V\<close> computed
  from that byte (plus 35 plus twice the chain id, or plus 27 under chain id 0). So 27 and 28
  become 0 and 1, and the byte is 0 or 1 exactly when it was 0, 1, 27 or 28 before; no value
  of the byte is rejected.
\<close>

theorem reconstructSignedRlpTxFromSig_recid:
  assumes "length sig = 65"
  shows "(let b = (if sig ! 64 \<ge> 27 then sig ! 64 - 27 else sig ! 64) in
          reconstructSignedRlpTxFromSig L tx chainID sig =
            (case RlpToEthTx L tx of
               Inl err \<Rightarrow> Inl err
             | Inr rawTx \<Rightarrow>
                 Inr (rawTx\<lparr>txV := (if chainID \<noteq> 0 then uint (b + 35) + 2 * uint chainID
                                      else uint (b + 27)),
                            txR := int (SetBytes (take 32 sig)),
                            txS := int (SetBytes (take 32 (drop 32 sig)))\<rparr>)) \<and>
          (sig ! 64 = 27 \<longrightarrow> b = 0) \<and>
          (sig ! 64 = 28 \<longrightarrow> b = 1) \<and>
          (b \<in> {0, 1} \<longleftrightarrow> sig ! 64 \<in> {0, 1, 27, 28}))"
proof -
  let ?b = "if sig ! 64 \<ge> 27 then sig ! 64 - 27 else sig ! 64"
  have ws: "WithSignature chainID rawTx (normalizedSig sig) =
              Inr (rawTx\<lparr>txV := (if chainID \<noteq> 0 then uint (?b + 35) + 2 * uint chainID
                                   else uint (?b + 27)),
                         txR := int (SetBytes (take 32 sig)),
                         txS := int (SetBytes (take 32 (drop 32 sig)))\<rparr>)" for rawTx
    unfolding WithSignature_def SignatureValues_def Let_def
    by (simp only: normalizedSig_parts [OF assms]) simp
  have rec: "reconstructSignedRlpTxFromSig L tx chainID sig =
            (case RlpToEthTx L tx of
               Inl err \<Rightarrow> Inl err
             | Inr rawTx \<Rightarrow>
                 Inr (rawTx\<lparr>txV := (if chainID \<noteq> 0 then uint (?b + 35) + 2 * uint chainID
                                      else uint (?b + 27)),
                            txR := int (SetBytes (take 32 sig)),
                            txS := int (SetBytes (take 32 (drop 32 sig)))\<rparr>))"
    unfolding reconstructSignedRlpTxFromSig_def Let_def ws
    using assms by (simp split: sum.splits)
  have r27: "sig ! 64 = 27 \<longrightarrow> ?b = 0" and r28: "sig ! 64 = 28 \<longrightarrow> ?b = 1"
    by simp_all
  have rng: "?b \<in> {0, 1} \<longleftrightarrow> sig ! 64 \<in> {0, 1, 27, 28}"
    by (rule normalized_byte_range)
  show ?thesis
    unfolding Let_def using rec r27 r28 rng by blast
qed

theorem reconstructSignedRlpTxFromSig_recid_witness:
  "length (sampleR @ sampleS @ [28]) = 65 \<and>
   (sampleR @ sampleS @ [28]) ! 64 = 28 \<and>
   reconstructSignedRlpTxFromSig sampleExtern (Some sampleAction) 1 (sampleR @ sampleS @ [28]) =
     Inr (sampleSignedTx 38) \<and>
   length (sampleR @ sampleS @ [27]) = 65 \<and>
   (sampleR @ sampleS @ [27]) ! 64 = 27 \<and>
   reconstructSignedRlpTxFromSig sampleExtern (Some sampleAction) 1 (sampleR @ sampleS @ [27]) =
     Inr (sampleSignedTx 37)"
  using reconstructSignedRlpTxFromSig_recid [OF sample_sig_length [of 28],
      of sampleExtern "Some sampleAction" 1]
    reconstructSignedRlpTxFromSig_recid [OF sample_sig_length [of 27],
      of sampleExtern "Some sampleAction" 1]
    sample_sig_length [of 28] sample_sig_length [of 27]
  by (simp add: sample_lengths nth_append sample_RlpToEthTx SetBytes_sampleR SetBytes_sampleS
      sampleSignedTx_def Let_def)

text \<open>
  The claim as stated fails: the 65-byte signature whose last byte is 2 keeps that byte, and
  the transaction is reconstructed from it with \<open>V = 2 + 35 + 2 \<sqdot> 1\<close>.
\<close>

theorem normalizedSig_recid_counterexample:
  "length (sampleR @ sampleS @ [2]) = 65 \<and>
   normalizedSig (sampleR @ sampleS @ [2]) ! 64 = 2 \<and>
   reconstructSignedRlpTxFromSig sampleExtern (Some sampleAction) 1 (sampleR @ sampleS @ [2]) =
     Inr (sampleSignedTx 39)"
  by (simp add: reconstructSignedRlpTxFromSig_def sample_lengths sample_normalizedSig
      sample_RlpToEthTx sample_WithSignature nth_append)

section \<open>Recipients\<close>

lemma length_BytesToAddress: "length (BytesToAddress b) = 20"
  by (simp add: BytesToAddress_def Let_def)

text \<open>
  C5: \<^verbatim>\<open>RlpToEthTx\<close> turns an action with an empty recipient into a contract creation,
  which has no \<open>to\<close> field. A non-empty recipient is parsed as a native address and mapped to
  a 20-byte Ethereum address, and the conversion of an action fails, with the
  invalid-recipient error, exactly when the recipient is non-empty and does not parse.
\<close>

theorem RlpToEthTx_recipient:
  "(Recipient a = [] \<longrightarrow>
      RlpToEthTx L (Some a) =
        Inr (NewContractCreation (Nonce a) (Amount a) (GasLimit a) (GasPrice a) (Payload a)) \<and>
      txTo (NewContractCreation (Nonce a) (Amount a) (GasLimit a) (GasPrice a) (Payload a)) = None) \<and>
   (Recipient a \<noteq> [] \<longrightarrow>
      (\<forall>addr. FromString L (Recipient a) = Inr addr \<longrightarrow>
         RlpToEthTx L (Some a) =
           Inr (NewTransaction (Nonce a) (BytesToAddress addr) (Amount a) (GasLimit a)
                  (GasPrice a) (Payload a)) \<and>
         txTo (NewTransaction (Nonce a) (BytesToAddress addr) (Amount a) (GasLimit a)
                  (GasPrice a) (Payload a)) = Some (BytesToAddress addr) \<and>
         length (BytesToAddress addr) = 20) \<and>
      (\<forall>msg. FromString L (Recipient a) = Inl msg \<longrightarrow>
         RlpToEthTx L (Some a) = Inl (ErrInvalidRecipient msg (Recipient a)))) \<and>
   ((\<exists>e. RlpToEthTx L (Some a) = Inl e) \<longleftrightarrow>
      (Recipient a \<noteq> [] \<and> (\<exists>msg. FromString L (Recipient a) = Inl msg)))"
  by (auto simp: RlpToEthTx_def EmptyAddress_def Let_def NewContractCreation_def
      NewTransaction_def length_BytesToAddress split: sum.splits)

lemma sample_FromString:
  "FromString sampleExtern sampleRecipient = Inr sampleAddress"
  "FromString sampleExtern [] = Inl ''invalid address''"
  "FromString sampleExtern ''io1bad'' = Inl ''invalid address''"
  by (simp_all add: sampleExtern_def sampleRecipient_def)

theorem RlpToEthTx_recipient_witness:
  "Recipient (sampleAction\<lparr>Recipient := []\<rparr>) = [] \<and>
   (\<exists>tx. RlpToEthTx sampleExtern (Some (sampleAction\<lparr>Recipient := []\<rparr>)) = Inr tx \<and> txTo tx = None) \<and>
   Recipient sampleAction \<noteq> [] \<and>
   FromString sampleExtern (Recipient sampleAction) = Inr sampleAddress \<and>
   (\<exists>tx. RlpToEthTx sampleExtern (Some sampleAction) = Inr tx \<and>
         txTo tx = Some (BytesToAddress sampleAddress)) \<and>
   Recipient (sampleAction\<lparr>Recipient := ''io1bad''\<rparr>) \<noteq> [] \<and>
   FromString sampleExtern ''io1bad'' = Inl ''invalid address'' \<and>
   RlpToEthTx sampleExtern (Some (sampleAction\<lparr>Recipient := ''io1bad''\<rparr>)) =
     Inl (ErrInvalidRecipient ''invalid address'' ''io1bad'')"
  using RlpToEthTx_recipient [of "sampleAction\<lparr>Recipient := []\<rparr>" sampleExtern]
    RlpToEthTx_recipient [of sampleAction sampleExtern]
    RlpToEthTx_recipient [of "sampleAction\<lparr>Recipient := ''io1bad''\<rparr>" sampleExtern]
    sample_FromString
  by (simp add: sampleAction_def sampleRecipient_def)

text \<open>
  C9: \<^verbatim>\<open>Transfer.ToEthTx\<close> returns the parser's error for every Transfer whose recipient
  does not parse, and a transaction it returns always has a \<open>to\<close> field. With an address
  parser that rejects the empty string, the Transfer with the empty recipient is an error
  here, while \<^verbatim>\<open>RlpToEthTx\<close> makes a contract creation of the same Transfer.
\<close>

theorem Transfer_ToEthTx_never_creates:
  "(\<forall>msg. FromString L (recipient tsf) = Inl msg \<longrightarrow>
      Transfer_ToEthTx L tsf = Inl (ErrAddress msg)) \<and>
   (\<forall>tx. Transfer_ToEthTx L tsf = Inr tx \<longrightarrow> txTo tx \<noteq> None) \<and>
   (recipient tsf = [] \<longrightarrow>
      (\<forall>msg. FromString L [] = Inl msg \<longrightarrow>
         Transfer_ToEthTx L tsf = Inl (ErrAddress msg) \<and>
         (\<exists>tx. RlpToEthTx L (Some (Transfer_rlp tsf)) = Inr tx \<and> txTo tx = None)))"
  by (auto simp: Transfer_ToEthTx_def RlpToEthTx_def Transfer_rlp_def EmptyAddress_def Let_def
      NewTransaction_def NewContractCreation_def split: sum.splits)

lemma sample_Transfer_ToEthTx:
  "\<exists>tx. Transfer_ToEthTx sampleExtern
          \<lparr>version = 1, nonce = 1, gasLimit = 100000, gasPrice = Some 0, amount = Some 10,
           recipient = sampleRecipient, payload = []\<rparr> = Inr tx"
  by (simp add: Transfer_ToEthTx_def sample_FromString)

theorem Transfer_ToEthTx_never_creates_witness:
  "FromString sampleExtern [] = Inl ''invalid address'' \<and>
   Transfer_ToEthTx sampleExtern
     \<lparr>version = 1, nonce = 1, gasLimit = 100000, gasPrice = Some 0, amount = Some 10,
      recipient = [], payload = []\<rparr> = Inl (ErrAddress ''invalid address'') \<and>
   (\<exists>tx. RlpToEthTx sampleExtern
           (Some (Transfer_rlp
              \<lparr>version = 1, nonce = 1, gasLimit = 100000, gasPrice = Some 0, amount = Some 10,
               recipient = [], payload = []\<rparr>)) = Inr tx \<and> txTo tx = None) \<and>
   (\<exists>tx. Transfer_ToEthTx sampleExtern
           \<lparr>version = 1, nonce = 1, gasLimit = 100000, gasPrice = Some 0, amount = Some 10,
            recipient = sampleRecipient, payload = []\<rparr> = Inr tx \<and> txTo tx \<noteq> None)"
  using Transfer_ToEthTx_never_creates [of sampleExtern
      "\<lparr>version = 1, nonce = 1, gasLimit = 100000, gasPrice = Some 0, amount = Some 10,
        recipient = [], payload = []\<rparr>"]
    Transfer_ToEthTx_never_creates [of sampleExtern
      "\<lparr>version = 1, nonce = 1, gasLimit = 100000, gasPrice = Some 0, amount = Some 10,
        recipient = sampleRecipient, payload = []\<rparr>"]
    sample_FromString sample_Transfer_ToEthTx
  by auto

section \<open>Blocks by number\<close>

lemma length_map_filter: "length (List.map_filter f xs) = length (filter (\<lambda>x. f x \<noteq> None) xs)"
  by (simp add: List.map_filter_def)

text \<open>
  C6, as amended: \<^verbatim>\<open>getBlockByNumber\<close> with a height beyond the tip returns the absent
  result and no error. For an existing block, the list without the full-transactions flag
  has one hash for each action of the block, so its length is the block's transaction count;
  the list with the flag has one object for each action that has an Ethereum-shaped view, so
  its length is at most that count.
\<close>

theorem getBlockByNumber_transactions:
  "(height > TipHeight svr \<longrightarrow> getBlockByNumber svr height isDetailed = Inr None) \<and>
   (\<forall>acts. height \<le> TipHeight svr \<and> blockActions svr height = Some acts \<longrightarrow>
      getBlockTransactionCountByNumber svr height = Inr (Some (length acts)) \<and>
      (\<exists>blk. getBlockByNumber svr height False = Inr (Some blk) \<and>
             length (transactions blk) = length acts) \<and>
      (\<exists>blk. getBlockByNumber svr height True = Inr (Some blk) \<and>
             length (transactions blk) = length (filter (\<lambda>a. ethView svr a \<noteq> None) acts) \<and>
             length (transactions blk) \<le> length acts))"
  by (auto simp: getBlockByNumber_def getBlockTransactionCountByNumber_def length_map_filter)

lemma sampleChain_facts:
  "TipHeight sampleChain = 4"
  "blockActions sampleChain 1 = Some [Some sampleAction, None]"
  "ethView sampleChain = (\<lambda>a. a)"
  by (simp_all add: sampleChain_def)

theorem getBlockByNumber_transactions_witness:
  "(16::nat) > TipHeight sampleChain \<and>
   getBlockByNumber sampleChain 16 False = Inr None \<and>
   (1::nat) \<le> TipHeight sampleChain \<and>
   blockActions sampleChain 1 = Some [Some sampleAction, None] \<and>
   getBlockTransactionCountByNumber sampleChain 1 = Inr (Some 2) \<and>
   (\<exists>blk. getBlockByNumber sampleChain 1 False = Inr (Some blk) \<and> length (transactions blk) = 2) \<and>
   (\<exists>blk. getBlockByNumber sampleChain 1 True = Inr (Some blk) \<and> length (transactions blk) = 1)"
  using getBlockByNumber_transactions [where height = 16 and svr = sampleChain and isDetailed = False]
    getBlockByNumber_transactions [where height = 1 and svr = sampleChain]
    sampleChain_facts
  by auto

text \<open>
  The sample chain passes both block tests, and every chain that passes them has a block 1
  with two actions and a one-element full-object list.
\<close>

lemma sampleChain_passes_block_tests:
  "TestGetBlockByNumberIntegrity sampleChain \<and>
   TestGetBlockTransactionCountByNumberIntegrity sampleChain"
  by (simp add: TestGetBlockByNumberIntegrity_def TestGetBlockTransactionCountByNumberIntegrity_def
      getBlockByNumber_def getBlockTransactionCountByNumber_def sampleChain_def
      List.map_filter_def)

lemma block_tests_fix_block_one:
  assumes "TestGetBlockByNumberIntegrity svr"
    and "TestGetBlockTransactionCountByNumberIntegrity svr"
  shows "\<exists>acts blk. blockActions svr 1 = Some acts \<and> length acts = 2 \<and>
           getBlockByNumber svr 1 True = Inr (Some blk) \<and> length (transactions blk) = 1"
  using assms
  by (auto simp: TestGetBlockByNumberIntegrity_def TestGetBlockTransactionCountByNumberIntegrity_def
      getBlockByNumber_def getBlockTransactionCountByNumber_def
      split: if_splits option.splits)

text \<open>
  The claim as stated fails on the sample chain: block 1 has two transactions, and two
  hashes without the flag, but one element with it.
\<close>

theorem getBlockByNumber_count_counterexample:
  "getBlockTransactionCountByNumber sampleChain 1 = Inr (Some 2) \<and>
   getBlockByNumber sampleChain 1 False =
     Inr (Some \<lparr>blkHeight = 1,
                transactions = [TxHash (replicate 32 0x66), TxHash (replicate 32 0x55)]\<rparr>) \<and>
   getBlockByNumber sampleChain 1 True =
     Inr (Some \<lparr>blkHeight = 1, transactions = [TxObject sampleAction]\<rparr>)"
  by (simp add: getBlockByNumber_def getBlockTransactionCountByNumber_def sampleChain_def
      List.map_filter_def)

section \<open>Polling filters\<close>

lemma poll_log_filter:
  assumes "filters m fid = Some \<lparr>kind = LogFilter crit, cursor = h\<rparr>"
  shows "\<exists>m2. getFilterChanges svr m fid =
            Inr (Logs (if h \<le> Height svr then logsInRange svr crit h (Height svr) else []), m2) \<and>
          (\<forall>m3 r. getFilterChanges svr m2 fid = Inr (r, m3) \<longrightarrow> r = Logs []) \<and>
          (\<exists>m3. getFilterChanges svr m2 fid = Inr (Logs [], m3))"
  using assms by (auto simp: getFilterChanges_def Let_def)

lemma poll_block_filter:
  assumes "filters m fid = Some \<lparr>kind = BlockFilter, cursor = h\<rparr>"
  shows "\<exists>m2. getFilterChanges svr m fid =
            Inr (BlockHashes (map (blockHashAt svr) [h ..< Height svr + 1]), m2) \<and>
          (\<exists>m3. getFilterChanges svr m2 fid = Inr (BlockHashes [], m3))"
  using assms by (auto simp: getFilterChanges_def Let_def)

text \<open>
  C7: the first \<^verbatim>\<open>getFilterChanges\<close> on a log filter just created with from-block \<open>h\<close>
  returns what the indexer holds for the criteria in the blocks \<open>h\<close> to the current height
  (nothing when \<open>h\<close> is beyond it), and the next one, at the same height, returns the empty
  sequence and no error. A block filter just created reports the hash of the block at the
  current height on its first poll and the empty sequence on the next.
\<close>

theorem getFilterChanges_exactly_once:
  "(\<forall>h fid m1. FromBlock crit = Some h \<and> newFilter idOf svr m crit = (fid, m1) \<longrightarrow>
      (\<exists>m2 m3.
         getFilterChanges svr m1 fid =
           Inr (Logs (if h \<le> Height svr then logsInRange svr crit h (Height svr) else []), m2) \<and>
         getFilterChanges svr m2 fid = Inr (Logs [], m3))) \<and>
   (\<forall>fid m1. newBlockFilter idOf svr m = (fid, m1) \<longrightarrow>
      (\<exists>m2 m3.
         getFilterChanges svr m1 fid = Inr (BlockHashes [blockHashAt svr (Height svr)], m2) \<and>
         getFilterChanges svr m2 fid = Inr (BlockHashes [], m3)))"
proof (intro conjI allI impI)
  fix h fid m1
  assume a: "FromBlock crit = Some h \<and> newFilter idOf svr m crit = (fid, m1)"
  then have "filters m1 fid = Some \<lparr>kind = LogFilter crit, cursor = h\<rparr>"
    by (auto simp: newFilter_def Let_def)
  from poll_log_filter [OF this, of svr]
  show "\<exists>m2 m3.
         getFilterChanges svr m1 fid =
           Inr (Logs (if h \<le> Height svr then logsInRange svr crit h (Height svr) else []), m2) \<and>
         getFilterChanges svr m2 fid = Inr (Logs [], m3)"
    by blast
next
  fix fid m1
  assume "newBlockFilter idOf svr m = (fid, m1)"
  then have "filters m1 fid = Some \<lparr>kind = BlockFilter, cursor = Height svr\<rparr>"
    by (auto simp: newBlockFilter_def Let_def)
  from poll_block_filter [OF this, of svr]
  show "\<exists>m2 m3.
         getFilterChanges svr m1 fid = Inr (BlockHashes [blockHashAt svr (Height svr)], m2) \<and>
         getFilterChanges svr m2 fid = Inr (BlockHashes [], m3)"
    by simp
qed

lemma sample_newFilter:
  "newFilter sampleIdOf sampleLedger sampleManager
     \<lparr>FromBlock = Some 2, ToBlock = None, Address = [], Topics = []\<rparr> =
   (replicate 32 0,
    \<lparr>filters = (\<lambda>fid. None)(replicate 32 0 \<mapsto>
        \<lparr>kind = LogFilter \<lparr>FromBlock = Some 2, ToBlock = None, Address = [], Topics = []\<rparr>,
         cursor = 2\<rparr>),
     created = 1\<rparr>)"
  by (simp add: newFilter_def sampleIdOf_def sampleManager_def Let_def)

lemma sample_newBlockFilter:
  "newBlockFilter sampleIdOf sampleLedger sampleManager =
   (replicate 32 0,
    \<lparr>filters = (\<lambda>fid. None)(replicate 32 0 \<mapsto> \<lparr>kind = BlockFilter, cursor = 4\<rparr>),
     created = 1\<rparr>)"
  by (simp add: newBlockFilter_def sampleIdOf_def sampleManager_def sampleLedger_def Let_def)

lemma sampleLedger_facts:
  "Height sampleLedger = 4"
  "logsInRange sampleLedger crit 2 4 = [2, 3, 4]"
  "blockHashAt sampleLedger 4 = replicate 32 4"
  by (simp_all add: sampleLedger_def)

theorem getFilterChanges_exactly_once_witness:
  "FromBlock \<lparr>FromBlock = Some 2, ToBlock = None, Address = [], Topics = []\<rparr> = Some 2 \<and>
   (\<exists>m2 m3.
      getFilterChanges sampleLedger
        \<lparr>filters = (\<lambda>fid. None)(replicate 32 0 \<mapsto>
            \<lparr>kind = LogFilter \<lparr>FromBlock = Some 2, ToBlock = None, Address = [], Topics = []\<rparr>,
             cursor = 2\<rparr>),
         created = 1\<rparr> (replicate 32 0) = Inr (Logs [2, 3, 4], m2) \<and>
      getFilterChanges sampleLedger m2 (replicate 32 0) = Inr (Logs [], m3)) \<and>
   (\<exists>m2 m3.
      getFilterChanges sampleLedger
        \<lparr>filters = (\<lambda>fid. None)(replicate 32 0 \<mapsto> \<lparr>kind = BlockFilter, cursor = 4\<rparr>),
         created = 1\<rparr> (replicate 32 0) = Inr (BlockHashes [replicate 32 4], m2) \<and>
      getFilterChanges sampleLedger m2 (replicate 32 0) = Inr (BlockHashes [], m3))"
  using getFilterChanges_exactly_once [where idOf = sampleIdOf and svr = sampleLedger
      and m = sampleManager
      and crit = "\<lparr>FromBlock = Some 2, ToBlock = None, Address = [], Topics = []\<rparr>"]
    sample_newFilter sample_newBlockFilter sampleLedger_facts
  by simp

text \<open>
  The modelled manager passes \<^verbatim>\<open>TestGetFilterChangesIntegrity\<close> on every ledger that holds
  four logs from block 1 on.
\<close>

lemma TestGetFilterChangesIntegrity_passes:
  assumes "1 \<le> Height svr"
    and "length (logsInRange svr \<lparr>FromBlock = Some 1, ToBlock = None, Address = [], Topics = []\<rparr>
                   1 (Height svr)) = 4"
  shows "TestGetFilterChangesIntegrity idOf svr m0"
  using assms
  by (simp add: TestGetFilterChangesIntegrity_def newFilter_def newBlockFilter_def
      getFilterChanges_def Let_def)

lemma sampleLedger_passes_filter_test:
  "TestGetFilterChangesIntegrity sampleIdOf sampleLedger sampleManager"
  by (rule TestGetFilterChangesIntegrity_passes) (simp_all add: sampleLedger_def)

section \<open>Gas estimates\<close>

lemma clamp_ge: "(21000 :: 64 word) \<le> (if g < 21000 then 21000 else g)"
  by (simp add: not_less)

lemma clamp_ge_arg: "(g :: 64 word) \<le> (if g < 21000 then 21000 else g)"
  by (simp add: less_imp_le)

text \<open>
  C8: \<^verbatim>\<open>estimateGas\<close> on a transfer without payload returns exactly 21000. Every estimate
  is at least 21000, and at least the requirement it was computed from: the figure of the
  ledger's simulation for a contract creation or a contract call, the intrinsic gas for a
  transfer.
\<close>

theorem estimateGas_base_cost:
  "(callTo c \<noteq> [] \<and> \<not> isContract svr (callTo c) \<and> callData c = [] \<longrightarrow>
      estimateGas svr c = Inr 21000) \<and>
   (\<forall>g. estimateGas svr c = Inr g \<longrightarrow>
      21000 \<le> g \<and>
      (callTo c = [] \<or> isContract svr (callTo c) \<longrightarrow>
         (\<exists>r. EstimateExecutionGasConsumption svr c = Inr r \<and> r \<le> g)) \<and>
      (callTo c \<noteq> [] \<and> \<not> isContract svr (callTo c) \<longrightarrow>
         (\<exists>r. Transfer_IntrinsicGas
                \<lparr>version = 1, nonce = 0, gasLimit = callGas c, gasPrice = Some 0,
                 amount = Some (callValue c), recipient = callTo c, payload = callData c\<rparr> = Inr r \<and>
              r \<le> g)))"
proof (intro conjI allI impI)
  assume a: "callTo c \<noteq> [] \<and> \<not> isContract svr (callTo c) \<and> callData c = []"
  have "Transfer_IntrinsicGas
          \<lparr>version = 1, nonce = 0, gasLimit = callGas c, gasPrice = Some 0,
           amount = Some (callValue c), recipient = callTo c, payload = []\<rparr> = Inr 10000"
    by (simp add: Transfer_IntrinsicGas_def CalculateIntrinsicGas_def TransferBaseIntrinsicGas_def
        TransferPayloadGas_def Let_def)
  then show "estimateGas svr c = Inr 21000"
    using a by (simp add: estimateGas_def Let_def)
next
  fix g assume "estimateGas svr c = Inr g"
  then show "21000 \<le> g"
    using clamp_ge by (auto simp: estimateGas_def Let_def split: sum.splits if_splits)
next
  fix g assume "estimateGas svr c = Inr g" and "callTo c = [] \<or> isContract svr (callTo c)"
  then show "\<exists>r. EstimateExecutionGasConsumption svr c = Inr r \<and> r \<le> g"
    using clamp_ge_arg by (auto simp: estimateGas_def Let_def split: sum.splits if_splits)
next
  fix g assume "estimateGas svr c = Inr g" and "callTo c \<noteq> [] \<and> \<not> isContract svr (callTo c)"
  then show "\<exists>r. Transfer_IntrinsicGas
                \<lparr>version = 1, nonce = 0, gasLimit = callGas c, gasPrice = Some 0,
                 amount = Some (callValue c), recipient = callTo c, payload = callData c\<rparr> = Inr r \<and>
              r \<le> g"
    using clamp_ge_arg by (auto simp: estimateGas_def Let_def split: sum.splits if_splits)
qed

text \<open>The first two rows of \<^verbatim>\<open>TestEstimateGasIntegrity\<close>, calls of an account without code.\<close>

lemma TestEstimateGasIntegrity_transfer_rows:
  assumes "callTo c \<noteq> []" and "\<not> isContract svr (callTo c)"
  shows "length (callData c) = 4 \<Longrightarrow> estimateGas svr c = Inr 21000"
    and "length (callData c) = 260 \<Longrightarrow> estimateGas svr c = Inr 36000"
  using assms
  by (simp_all add: estimateGas_def Transfer_IntrinsicGas_def CalculateIntrinsicGas_def
      TransferBaseIntrinsicGas_def TransferPayloadGas_def Let_def)

lemma sample_estimates:
  "estimateGas sampleEstimator sampleCall = Inr 21000"
  "estimateGas sampleEstimator (sampleCall\<lparr>callTo := ''io1contract'', callData := [0x6d, 0x4c, 0xe6, 0x3c]\<rparr>) = Inr 21000"
  by (simp_all add: estimateGas_def Transfer_IntrinsicGas_def CalculateIntrinsicGas_def
      TransferBaseIntrinsicGas_def TransferPayloadGas_def Let_def sampleEstimator_def
      sampleCall_def sampleRecipient_def)

theorem estimateGas_base_cost_witness:
  "callTo sampleCall \<noteq> [] \<and> \<not> isContract sampleEstimator (callTo sampleCall) \<and>
   callData sampleCall = [] \<and>
   estimateGas sampleEstimator sampleCall = Inr 21000 \<and>
   isContract sampleEstimator
     (callTo (sampleCall\<lparr>callTo := ''io1contract'', callData := [0x6d, 0x4c, 0xe6, 0x3c]\<rparr>)) \<and>
   estimateGas sampleEstimator
     (sampleCall\<lparr>callTo := ''io1contract'', callData := [0x6d, 0x4c, 0xe6, 0x3c]\<rparr>) = Inr 21000 \<and>
   EstimateExecutionGasConsumption sampleEstimator
     (sampleCall\<lparr>callTo := ''io1contract'', callData := [0x6d, 0x4c, 0xe6, 0x3c]\<rparr>) = Inr 12000 \<and>
   (12000 :: 64 word) \<le> 21000"
  using estimateGas_base_cost [of sampleCall sampleEstimator]
    estimateGas_base_cost [of "sampleCall\<lparr>callTo := ''io1contract'', callData := [0x6d, 0x4c, 0xe6, 0x3c]\<rparr>" sampleEstimator]
    sample_estimates
  by (simp add: sampleEstimator_def sampleCall_def sampleRecipient_def)

section \<open>Intrinsic gas and cost of a Transfer\<close>

lemma unat_gas:
  assumes "10000 + 100 * n < (2::nat) ^ 64"
  shows "unat (10000 + 100 * (of_nat n :: 64 word)) = 10000 + 100 * n"
proof -
  have "10000 + 100 * (of_nat n :: 64 word) = of_nat (10000 + 100 * n)" by simp
  also have "unat \<dots> = 10000 + 100 * n"
    using assms by (simp only: unat_of_nat take_bit_nat_eq_self_iff len_of_numeral_defs) simp
  finally show ?thesis .
qed

lemma unat_of_nat_length:
  assumes "10000 + 100 * n < (2::nat) ^ 64"
  shows "unat (of_nat n :: 64 word) = n"
proof -
  have "n < 2 ^ 64" using assms by simp
  then show ?thesis by (simp add: unat_of_nat take_bit_nat_eq_self_iff)
qed

text \<open>
  C10: when 10000 plus 100 per payload byte fits 64 bits, \<^verbatim>\<open>IntrinsicGas\<close> of a Transfer is
  that sum, and \<^verbatim>\<open>Cost\<close> is the amount plus the gas price times that intrinsic gas.
\<close>

theorem Transfer_IntrinsicGas_Cost:
  assumes "10000 + 100 * length (payload tsf) < 2 ^ 64"
  shows "\<exists>g. Transfer_IntrinsicGas tsf = Inr g \<and>
             unat g = 10000 + 100 * length (payload tsf) \<and>
             (\<forall>p a. gasPrice tsf = Some p \<and> amount tsf = Some a \<longrightarrow>
                Transfer_Cost tsf = Inr (a + p * int (10000 + 100 * length (payload tsf))))"
proof -
  let ?n = "length (payload tsf)"
  let ?g = "10000 + 100 * (of_nat ?n :: 64 word)"
  have ig: "Transfer_IntrinsicGas tsf = Inr ?g"
    using assms unat_of_nat_length [OF assms]
    by (simp add: Transfer_IntrinsicGas_def CalculateIntrinsicGas_def TransferBaseIntrinsicGas_def
        TransferPayloadGas_def Let_def)
  have u: "unat ?g = 10000 + 100 * ?n" by (rule unat_gas [OF assms])
  have "uint ?g = int (10000 + 100 * ?n)"
    by (simp only: uint_nat u)
  then have "\<forall>p a. gasPrice tsf = Some p \<and> amount tsf = Some a \<longrightarrow>
                Transfer_Cost tsf = Inr (a + p * int (10000 + 100 * ?n))"
    by (simp add: Transfer_Cost_def ig Let_def)
  with ig u show ?thesis by blast
qed

theorem Transfer_IntrinsicGas_Cost_witness:
  "10000 + 100 * length (payload \<lparr>version = 1, nonce = 1, gasLimit = 100000, gasPrice = Some 3,
       amount = Some 10, recipient = sampleRecipient, payload = [1, 2, 3, 4]\<rparr>) < (2::nat) ^ 64 \<and>
   Transfer_IntrinsicGas \<lparr>version = 1, nonce = 1, gasLimit = 100000, gasPrice = Some 3,
       amount = Some 10, recipient = sampleRecipient, payload = [1, 2, 3, 4]\<rparr> = Inr 10400 \<and>
   Transfer_Cost \<lparr>version = 1, nonce = 1, gasLimit = 100000, gasPrice = Some 3,
       amount = Some 10, recipient = sampleRecipient, payload = [1, 2, 3, 4]\<rparr> = Inr 31210"
  using Transfer_IntrinsicGas_Cost [of "\<lparr>version = 1, nonce = 1, gasLimit = 100000,
       gasPrice = Some 3, amount = Some 10, recipient = sampleRecipient, payload = [1, 2, 3, 4]\<rparr>"]
  by (auto simp: word_unat_eq_iff)

end
